theory Spec2Isabelle
  imports Complex_Main "HOL-Library.Multiset"
begin

section \<open>JavaScript values\<close>

text \<open>
  A JavaScript string is a sequence of UTF-16 code units, so text that the repository
  trims and stores is a list of code units. Error messages, property names and HTTP
  status texts are plain ASCII and are kept as HOL strings; \<open>js\<close> turns an ASCII
  literal into code units.
\<close>

type_synonym jsstring = "nat list"

definition js :: "string \<Rightarrow> jsstring" where
  "js s = map of_char s"

text \<open>
  The code units that \<open>String.prototype.trim\<close> and \<open>parseInt\<close> skip: the WhiteSpace
  and LineTerminator productions of ECMAScript (TAB, LF, VT, FF, CR, SP, NBSP, U+1680,
  U+2000 to U+200A, LS, PS, U+202F, U+205F, U+3000 and the byte order mark).
\<close>

definition isWhiteSpace :: "nat \<Rightarrow> bool" where
  "isWhiteSpace c \<longleftrightarrow>
     (9 \<le> c \<and> c \<le> 13) \<or> c = 32 \<or> c = 160 \<or> c = 5760 \<or> (8192 \<le> c \<and> c \<le> 8202) \<or>
     c = 8232 \<or> c = 8233 \<or> c = 8239 \<or> c = 8287 \<or> c = 12288 \<or> c = 65279"

definition trim :: "jsstring \<Rightarrow> jsstring" where
  "trim s = rev (dropWhile isWhiteSpace (rev (dropWhile isWhiteSpace s)))"

text \<open>
  Numbers are exact rationals plus NaN: what the code asks of a number is whether it is
  NaN, zero, an integer or positive. The rounding of doubles beyond \<open>2^53\<close> and the
  infinities are not part of the model.
\<close>

datatype jsnum = NaN | Num rat

datatype jsval =
    JUndefined
  | JNull
  | JBool bool
  | JNumber jsnum
  | JString jsstring
  | JArray "jsval list"
  | JObject "(string \<times> jsval) list"

text \<open>\<open>!n\<close> on a number.\<close>

fun num_falsy :: "jsnum \<Rightarrow> bool" where
  "num_falsy NaN = True"
| "num_falsy (Num q) = (q = 0)"

text \<open>ToBoolean.\<close>

fun truthy :: "jsval \<Rightarrow> bool" where
  "truthy JUndefined = False"
| "truthy JNull = False"
| "truthy (JBool b) = b"
| "truthy (JNumber n) = (\<not> num_falsy n)"
| "truthy (JString s) = (s \<noteq> [])"
| "truthy (JArray xs) = True"
| "truthy (JObject kvs) = True"

fun typeof :: "jsval \<Rightarrow> string" where
  "typeof JUndefined = ''undefined''"
| "typeof JNull = ''object''"
| "typeof (JBool b) = ''boolean''"
| "typeof (JNumber n) = ''number''"
| "typeof (JString s) = ''string''"
| "typeof (JArray xs) = ''object''"
| "typeof (JObject kvs) = ''object''"

text \<open>
  Property read \<open>v.k\<close> for the six property names the code reads (prompt, en, kn, name,
  description, inputPlaceholder): none of them exists on a string, number, boolean or
  array, so only an object can answer with something other than undefined. Reading a
  property of null or undefined throws; each caller below guards that case itself.
\<close>

fun get :: "jsval \<Rightarrow> string \<Rightarrow> jsval" where
  "get (JObject kvs) k = (case map_of kvs k of Some v \<Rightarrow> v | None \<Rightarrow> JUndefined)"
| "get v k = JUndefined"

fun str_of :: "jsval \<Rightarrow> jsstring" where
  "str_of (JString s) = s"
| "str_of v = []"

text \<open>\<open>v || null\<close>.\<close>

definition or_null :: "jsval \<Rightarrow> jsval" where
  "or_null v = (if truthy v then v else JNull)"

fun isNaN :: "jsnum \<Rightarrow> bool" where
  "isNaN NaN = True"
| "isNaN (Num q) = False"

text \<open>\<open>Number.isInteger\<close>.\<close>

fun isInteger :: "jsnum \<Rightarrow> bool" where
  "isInteger NaN = False"
| "isInteger (Num q) = (of_int \<lfloor>q\<rfloor> = q)"

text \<open>\<open>n <= 0\<close>: every comparison with NaN is false.\<close>

fun le_zero :: "jsnum \<Rightarrow> bool" where
  "le_zero NaN = False"
| "le_zero (Num q) = (q \<le> 0)"

text \<open>The integer that a validated id denotes when it is bound to a statement.\<close>

fun id_of :: "jsnum \<Rightarrow> nat" where
  "id_of NaN = 0"
| "id_of (Num q) = nat \<lfloor>q\<rfloor>"

text \<open>Decimal digits of a natural number, as a template literal prints an integer id.\<close>

fun show_nat :: "nat \<Rightarrow> string" where
  "show_nat n =
     (if n < 10 then [''0123456789'' ! n]
      else show_nat (n div 10) @ [''0123456789'' ! (n mod 10)])"

text \<open>\<open>String.prototype.includes\<close> on messages.\<close>

fun startsWith :: "string \<Rightarrow> string \<Rightarrow> bool" where
  "startsWith s [] = True"
| "startsWith [] (y # ys) = False"
| "startsWith (x # xs) (y # ys) = (x = y \<and> startsWith xs ys)"

fun includesStr :: "string \<Rightarrow> string \<Rightarrow> bool" where
  "includesStr [] sub = (sub = [])"
| "includesStr (x # xs) sub = (startsWith (x # xs) sub \<or> includesStr xs sub)"

subsection \<open>parseInt\<close>

text \<open>
  \<open>parseInt(string)\<close> with no radix, after ECMAScript: skip leading white space, read
  an optional sign, switch to radix 16 after a \<open>0x\<close> or \<open>0X\<close> prefix, take the longest
  run of digits of the radix, and answer NaN when that run is empty.
\<close>

definition digitValue :: "nat \<Rightarrow> nat option" where
  "digitValue c =
     (if 48 \<le> c \<and> c \<le> 57 then Some (c - 48)
      else if 97 \<le> c \<and> c \<le> 122 then Some (c - 87)
      else if 65 \<le> c \<and> c \<le> 90 then Some (c - 55)
      else None)"

definition isRadixDigit :: "nat \<Rightarrow> nat \<Rightarrow> bool" where
  "isRadixDigit R c = (case digitValue c of Some d \<Rightarrow> d < R | None \<Rightarrow> False)"

definition mathInt :: "nat \<Rightarrow> jsstring \<Rightarrow> nat" where
  "mathInt R Z = foldl (\<lambda>acc c. acc * R + (case digitValue c of Some d \<Rightarrow> d | None \<Rightarrow> 0)) 0 Z"

definition parseInt :: "jsstring \<Rightarrow> jsnum" where
  "parseInt inputString =
     (let S = dropWhile isWhiteSpace inputString;
          sign = (if S \<noteq> [] \<and> hd S = 45 then - 1 else 1 :: int);
          S1 = (if S \<noteq> [] \<and> (hd S = 43 \<or> hd S = 45) then tl S else S);
          hex = (take 2 S1 = [48, 120] \<or> take 2 S1 = [48, 88]);
          R = (if hex then 16 else 10);
          S2 = (if hex then drop 2 S1 else S1);
          Z = takeWhile (isRadixDigit R) S2
      in if Z = [] then NaN else Num (of_int (sign * int (mathInt R Z))))"

section \<open>Record store\<close>

text \<open>
  One row of table \<open>modules\<close>. The three NOT NULL text columns hold strings, the four
  optional ones a string or NULL (\<open>None\<close>). \<open>CURRENT_TIMESTAMP\<close> has a resolution of one
  second; a timestamp is the number of that second.
\<close>

record row =
  row_id :: nat
  row_prompt :: jsstring
  en_name :: jsstring
  en_description :: "jsstring option"
  en_input_placeholder :: "jsstring option"
  kn_name :: jsstring
  kn_description :: "jsstring option"
  kn_input_placeholder :: "jsstring option"
  created_at :: nat
  updated_at :: nat

text \<open>
  The database: the rows in rowid order, the AUTOINCREMENT high-water mark that SQLite
  keeps in \<open>sqlite_sequence\<close>, and the number of statements executed so far.
\<close>

record store =
  table :: "row list"
  seq :: nat
  stmts :: nat

text \<open>
  What the repository does not decide, indexed by the number of the statement:
  whether the driver reports an error for it, the second that \<open>CURRENT_TIMESTAMP\<close>
  reads, and what statements of other requests did to the database since the previous
  statement of this run (the driver runs one statement at a time, but the callbacks of
  several requests interleave). \<open>text_of\<close> is the text that the driver and the TEXT
  affinity of a column make of a bound value that is not a string.
\<close>

record env =
  fails :: "nat \<Rightarrow> bool"
  clock :: "nat \<Rightarrow> nat"
  others :: "nat \<Rightarrow> store \<Rightarrow> store"
  text_of :: "jsval \<Rightarrow> jsstring"

datatype 'a dbres = DbErr | DbOk 'a

text \<open>The seven bound parameters of INSERT and UPDATE, in the order of the statement.\<close>

type_synonym params =
  "jsstring \<times> jsstring \<times> jsstring option \<times> jsstring option \<times>
   jsstring \<times> jsstring option \<times> jsstring option"

definition arrive :: "env \<Rightarrow> store \<Rightarrow> store" where
  "arrive e s = (others e (stmts s) s)\<lparr>stmts := Suc (stmts s)\<rparr>"

text \<open>
  \<open>ORDER BY created_at DESC\<close>. SQL leaves the order of rows with equal keys open;
  SQLite's sorter is a stable merge sort over the table scan, so they stay in rowid
  order.
\<close>

definition order_by_created_at_desc :: "row list \<Rightarrow> row list" where
  "order_by_created_at_desc rs = sort_key (\<lambda>r. - int (created_at r)) rs"

definition db_all :: "env \<Rightarrow> store \<Rightarrow> row list dbres \<times> store" where
  "db_all e s =
     (let s1 = arrive e s in
      if fails e (stmts s) then (DbErr, s1)
      else (DbOk (order_by_created_at_desc (table s1)), s1))"

text \<open>\<open>SELECT ... WHERE id = ?\<close> through \<open>db.get\<close>: the matching row or undefined.\<close>

definition db_get :: "env \<Rightarrow> nat \<Rightarrow> store \<Rightarrow> row option dbres \<times> store" where
  "db_get e i s =
     (let s1 = arrive e s in
      if fails e (stmts s) then (DbErr, s1)
      else (DbOk (find (\<lambda>r. row_id r = i) (table s1)), s1))"

text \<open>
  INSERT: the id is one more than the largest rowid that ever existed (AUTOINCREMENT),
  both timestamp columns take their default, the same \<open>CURRENT_TIMESTAMP\<close>. The result
  is \<open>this.lastID\<close>.
\<close>

definition next_id :: "store \<Rightarrow> nat" where
  "next_id s = Suc (max (seq s) (foldr max (map row_id (table s)) 0))"

definition db_insert :: "env \<Rightarrow> params \<Rightarrow> store \<Rightarrow> nat dbres \<times> store" where
  "db_insert e ps s =
     (let s1 = arrive e s in
      if fails e (stmts s) then (DbErr, s1)
      else
        (case ps of (p, en_n, en_d, en_i, kn_n, kn_d, kn_i) \<Rightarrow>
           let new_id = next_id s1;
               now = clock e (stmts s);
               r = \<lparr>row_id = new_id, row_prompt = p, en_name = en_n, en_description = en_d,
                    en_input_placeholder = en_i, kn_name = kn_n, kn_description = kn_d,
                    kn_input_placeholder = kn_i, created_at = now, updated_at = now\<rparr>
           in (DbOk new_id, s1\<lparr>table := table s1 @ [r], seq := new_id\<rparr>)))"

text \<open>UPDATE of the seven content columns and \<open>updated_at\<close>; the result is \<open>this.changes\<close>.\<close>

definition set_content :: "params \<Rightarrow> nat \<Rightarrow> row \<Rightarrow> row" where
  "set_content ps now r =
     (case ps of (p, en_n, en_d, en_i, kn_n, kn_d, kn_i) \<Rightarrow>
        r\<lparr>row_prompt := p, en_name := en_n, en_description := en_d, en_input_placeholder := en_i,
          kn_name := kn_n, kn_description := kn_d, kn_input_placeholder := kn_i,
          updated_at := now\<rparr>)"

definition db_update :: "env \<Rightarrow> params \<Rightarrow> nat \<Rightarrow> store \<Rightarrow> nat dbres \<times> store" where
  "db_update e ps i s =
     (let s1 = arrive e s in
      if fails e (stmts s) then (DbErr, s1)
      else
        (DbOk (length (filter (\<lambda>r. row_id r = i) (table s1))),
         s1\<lparr>table := map (\<lambda>r. if row_id r = i then set_content ps (clock e (stmts s)) r else r)
                          (table s1)\<rparr>))"

definition db_delete :: "env \<Rightarrow> nat \<Rightarrow> store \<Rightarrow> nat dbres \<times> store" where
  "db_delete e i s =
     (let s1 = arrive e s in
      if fails e (stmts s) then (DbErr, s1)
      else
        (DbOk (length (filter (\<lambda>r. row_id r = i) (table s1))),
         s1\<lparr>table := filter (\<lambda>r. row_id r \<noteq> i) (table s1)\<rparr>))"

section \<open>Module repository\<close>

record ModuleContent =
  name :: jsstring
  description :: "jsstring option"
  inputPlaceholder :: "jsstring option"

record Module =
  mod_id :: nat
  prompt :: jsstring
  en :: ModuleContent
  kn :: ModuleContent
  createdAt :: nat
  updatedAt :: nat

text \<open>The flat row as the nested object every read returns.\<close>

definition to_module :: "row \<Rightarrow> Module" where
  "to_module r =
     \<lparr>mod_id = row_id r, prompt = row_prompt r,
      en = \<lparr>name = en_name r, description = en_description r,
            inputPlaceholder = en_input_placeholder r\<rparr>,
      kn = \<lparr>name = kn_name r, description = kn_description r,
            inputPlaceholder = kn_input_placeholder r\<rparr>,
      createdAt = created_at r, updatedAt = updated_at r\<rparr>"

text \<open>
  How a promise of the repository ends: resolved, rejected with \<open>new Error(message)\<close>,
  or never settled because a driver callback threw (reading a property of an undefined
  row).
\<close>

datatype 'a outcome = Resolved 'a | Rejected string | Thrown

text \<open>A parameter of an optional column: \<open>x || null\<close> as the driver binds it.\<close>

definition bind_text :: "env \<Rightarrow> jsval \<Rightarrow> jsstring option" where
  "bind_text e v =
     (case or_null v of
        JNull \<Rightarrow> None
      | JUndefined \<Rightarrow> None
      | JString t \<Rightarrow> Some t
      | w \<Rightarrow> Some (text_of e w))"

definition params_of :: "env \<Rightarrow> jsval \<Rightarrow> params" where
  "params_of e moduleData =
     (trim (str_of (get moduleData ''prompt'')),
      trim (str_of (get (get moduleData ''en'') ''name'')),
      bind_text e (get (get moduleData ''en'') ''description''),
      bind_text e (get (get moduleData ''en'') ''inputPlaceholder''),
      trim (str_of (get (get moduleData ''kn'') ''name'')),
      bind_text e (get (get moduleData ''kn'') ''description''),
      bind_text e (get (get moduleData ''kn'') ''inputPlaceholder''))"

definition getAllModules :: "env \<Rightarrow> store \<Rightarrow> Module list outcome \<times> store" where
  "getAllModules e s =
     (case db_all e s of
        (DbErr, s1) \<Rightarrow> (Rejected ''Failed to fetch modules from database'', s1)
      | (DbOk rows, s1) \<Rightarrow> (Resolved (map to_module rows), s1))"

definition createModule :: "env \<Rightarrow> jsval \<Rightarrow> store \<Rightarrow> Module outcome \<times> store" where
  "createModule e moduleData s =
     (if \<not> truthy moduleData \<or> typeof moduleData \<noteq> ''object'' then
        (Rejected ''Module data is required'', s)
      else if \<not> truthy (get moduleData ''prompt'')
              \<or> typeof (get moduleData ''prompt'') \<noteq> ''string''
              \<or> trim (str_of (get moduleData ''prompt'')) = [] then
        (Rejected ''Module prompt is required'', s)
      else if \<not> truthy (get moduleData ''en'')
              \<or> \<not> truthy (get (get moduleData ''en'') ''name'')
              \<or> typeof (get (get moduleData ''en'') ''name'') \<noteq> ''string''
              \<or> trim (str_of (get (get moduleData ''en'') ''name'')) = [] then
        (Rejected ''English name is required'', s)
      else if \<not> truthy (get moduleData ''kn'')
              \<or> \<not> truthy (get (get moduleData ''kn'') ''name'')
              \<or> typeof (get (get moduleData ''kn'') ''name'') \<noteq> ''string''
              \<or> trim (str_of (get (get moduleData ''kn'') ''name'')) = [] then
        (Rejected ''Kannada name is required'', s)
      else
        (case db_insert e (params_of e moduleData) s of
           (DbErr, s1) \<Rightarrow> (Rejected ''Failed to create module in database'', s1)
         | (DbOk lastID, s1) \<Rightarrow>
             (case db_get e lastID s1 of
                (DbErr, s2) \<Rightarrow> (Rejected ''Module created but failed to retrieve'', s2)
              | (DbOk None, s2) \<Rightarrow> (Thrown, s2)
              | (DbOk (Some r), s2) \<Rightarrow> (Resolved (to_module r), s2))))"

definition updateModule :: "env \<Rightarrow> jsnum \<Rightarrow> jsval \<Rightarrow> store \<Rightarrow> Module outcome \<times> store" where
  "updateModule e idv moduleData s =
     (if num_falsy idv \<or> \<not> isInteger idv \<or> le_zero idv then
        (Rejected ''Valid module ID is required'', s)
      else if \<not> truthy moduleData \<or> typeof moduleData \<noteq> ''object'' then
        (Rejected ''Module data is required'', s)
      else if \<not> truthy (get moduleData ''prompt'')
              \<or> typeof (get moduleData ''prompt'') \<noteq> ''string''
              \<or> trim (str_of (get moduleData ''prompt'')) = [] then
        (Rejected ''Module prompt is required'', s)
      else if \<not> truthy (get moduleData ''en'')
              \<or> \<not> truthy (get (get moduleData ''en'') ''name'')
              \<or> typeof (get (get moduleData ''en'') ''name'') \<noteq> ''string''
              \<or> trim (str_of (get (get moduleData ''en'') ''name'')) = [] then
        (Rejected ''English name is required'', s)
      else if \<not> truthy (get moduleData ''kn'')
              \<or> \<not> truthy (get (get moduleData ''kn'') ''name'')
              \<or> typeof (get (get moduleData ''kn'') ''name'') \<noteq> ''string''
              \<or> trim (str_of (get (get moduleData ''kn'') ''name'')) = [] then
        (Rejected ''Kannada name is required'', s)
      else
        (case db_get e (id_of idv) s of
           (DbErr, s1) \<Rightarrow> (Rejected ''Failed to verify module existence'', s1)
         | (DbOk None, s1) \<Rightarrow>
             (Rejected (''Module with ID '' @ show_nat (id_of idv) @ '' not found''), s1)
         | (DbOk (Some found), s1) \<Rightarrow>
             (case db_update e (params_of e moduleData) (id_of idv) s1 of
                (DbErr, s2) \<Rightarrow> (Rejected ''Failed to update module in database'', s2)
              | (DbOk changes, s2) \<Rightarrow>
                  (case db_get e (id_of idv) s2 of
                     (DbErr, s3) \<Rightarrow> (Rejected ''Module updated but failed to retrieve'', s3)
                   | (DbOk None, s3) \<Rightarrow> (Thrown, s3)
                   | (DbOk (Some r), s3) \<Rightarrow> (Resolved (to_module r), s3)))))"

definition deleteModule :: "env \<Rightarrow> jsnum \<Rightarrow> store \<Rightarrow> bool outcome \<times> store" where
  "deleteModule e idv s =
     (if num_falsy idv \<or> \<not> isInteger idv \<or> le_zero idv then
        (Rejected ''Valid module ID is required'', s)
      else
        (case db_get e (id_of idv) s of
           (DbErr, s1) \<Rightarrow> (Rejected ''Failed to verify module existence'', s1)
         | (DbOk None, s1) \<Rightarrow>
             (Rejected (''Module with ID '' @ show_nat (id_of idv) @ '' not found''), s1)
         | (DbOk (Some found), s1) \<Rightarrow>
             (case db_delete e (id_of idv) s1 of
                (DbErr, s2) \<Rightarrow> (Rejected ''Failed to delete module from database'', s2)
              | (DbOk changes, s2) \<Rightarrow>
                  if changes = 0 then
                    (Rejected ''Module deletion failed - no rows affected'', s2)
                  else (Resolved True, s2))))"


section \<open>Seeding\<close>

text \<open>
  The three default modules of \<open>seedData.js\<close>. The Kannada texts are written as
  their UTF-16 code units.
\<close>

definition default_summarizer :: jsval where
  "default_summarizer =
     JObject
      [(''prompt'', JString (js ''Please summarize the following text into clear, concise bullet points highlighting the main ideas and key information:'')),
       (''en'', JObject
         [(''name'', JString
           (js ''Text Summarizer'')),
          (''description'', JString
           (js ''Summarize long text content into key points'')),
          (''inputPlaceholder'', JString
           (js ''Enter the text you want to summarize...''))]),
       (''kn'', JObject
         [(''name'', JString
           ([3242, 3232, 3277, 3247, 32, 3256, 3262, 3248, 3262, 3202, 3254])),
          (''description'', JString
           ([3238, 3264, 3248, 3277, 3224, 32, 3242, 3232, 3277, 3247, 32, 3253, 3263, 3255,
            3247, 3253, 3240, 3277, 3240, 3265, 32, 3242, 3277, 3248, 3246, 3265, 3222, 32,
            3205, 3202, 3254, 3223, 3251, 3262, 3223, 3263, 32, 3256, 3262, 3248, 3262,
            3202, 3254, 3223, 3274, 3251, 3263, 3256, 3263])),
          (''inputPlaceholder'', JString
           ([3240, 3264, 3253, 3265, 32, 3256, 3262, 3248, 3262, 3202, 3254, 32, 3246, 3262,
            3233, 3250, 3265, 32, 3244, 3247, 3256, 3265, 3253, 32, 3242, 3232, 3277, 3247,
            3253, 3240, 3277, 3240, 3265, 32, 3240, 3246, 3266, 3238, 3263, 3256, 3263, 46,
            46, 46]))])]"

definition default_email_writer :: jsval where
  "default_email_writer =
     JObject
      [(''prompt'', JString (js ''Write a professional email based on the following requirements. Make it clear, polite, and well-structured:'')),
       (''en'', JObject
         [(''name'', JString
           (js ''Email Writer'')),
          (''description'', JString
           (js ''Generate professional emails from brief descriptions'')),
          (''inputPlaceholder'', JString
           (js ''Describe the email you need (purpose, recipient, tone, key points)...''))]),
       (''kn'', JObject
         [(''name'', JString
           ([3207, 3246, 3271, 3250, 3277, 32, 3248, 3226, 3240, 3270, 3221, 3262, 3248])),
          (''description'', JString
           ([3256, 3202, 3221, 3277, 3255, 3263, 3242, 3277, 3236, 32, 3253, 3263, 3253,
            3248, 3235, 3270, 3223, 3251, 3263, 3202, 3238, 32, 3253, 3267, 3236, 3277,
            3236, 3263, 3242, 3248, 32, 3207, 3246, 3271, 3250, 3277, 8204, 3223, 3251,
            3240, 3277, 3240, 3265, 32, 3248, 3226, 3263, 3256, 3263])),
          (''inputPlaceholder'', JString
           ([3240, 3263, 3246, 3223, 3270, 32, 3244, 3271, 3221, 3262, 3238, 32, 3207, 3246,
            3271, 3250, 3277, 32, 3205, 3240, 3277, 3240, 3265, 32, 3253, 3263, 3253, 3248,
            3263, 3256, 3263, 32, 40, 3209, 3238, 3277, 3238, 3271, 3254, 44, 32, 3256,
            3277, 3253, 3264, 3221, 3248, 3263, 3256, 3265, 3253, 3253, 3248, 3265, 44, 32,
            3239, 3277, 3253, 3240, 3263, 44, 32, 3242, 3277, 3248, 3246, 3265, 3222, 32,
            3205, 3202, 3254, 3223, 3251, 3265, 41, 46, 46, 46]))])]"

definition default_image_analysis :: jsval where
  "default_image_analysis =
     JObject
      [(''prompt'', JString (js ''Analyze the following image and write a detailed description about it:'')),
       (''en'', JObject
         [(''name'', JString
           (js ''Image Analysis'')),
          (''description'', JString
           (js ''Analyze an image and generate a description'')),
          (''inputPlaceholder'', JString
           (js ''Upload an image for analysis...''))]),
       (''kn'', JObject
         [(''name'', JString
           ([3226, 3263, 3236, 3277, 3248, 32, 3253, 3263, 3254, 3277, 3250, 3271, 3255,
            3235, 3270])),
          (''description'', JString
           ([3226, 3263, 3236, 3277, 3248, 3253, 3240, 3277, 3240, 3265, 32, 3253, 3263,
            3254, 3277, 3250, 3271, 3255, 3263, 3256, 3263, 32, 3246, 3236, 3277, 3236,
            3265, 32, 3253, 3263, 3253, 3248, 3235, 3270, 3247, 3240, 3277, 3240, 3265, 32,
            3248, 3226, 3263, 3256, 3263])),
          (''inputPlaceholder'', JString
           ([3253, 3263, 3254, 3277, 3250, 3271, 3255, 3235, 3270, 3223, 3262, 3223, 3263,
            32, 3226, 3263, 3236, 3277, 3248, 3253, 3240, 3277, 3240, 3265, 32, 3205, 3242,
            3277, 8204, 3250, 3275, 3233, 3277, 32, 3246, 3262, 3233, 3263, 46, 46, 46]))])]"

definition defaultModules :: "jsval list" where
  "defaultModules = [default_summarizer, default_email_writer, default_image_analysis]"
definition isDatabaseEmpty :: "env \<Rightarrow> store \<Rightarrow> bool outcome \<times> store" where
  "isDatabaseEmpty e s =
     (case getAllModules e s of
        (Resolved modules, s1) \<Rightarrow> (Resolved (length modules = 0), s1)
      | (Rejected msg, s1) \<Rightarrow> (Rejected ''Failed to check database state'', s1)
      | (Thrown, s1) \<Rightarrow> (Thrown, s1))"

text \<open>
  The loop of \<open>seedDatabase\<close> over the defaults that are left, with the list of
  modules created so far: the first creation that fails ends it.
\<close>

fun create_each :: "env \<Rightarrow> jsval list \<Rightarrow> Module list \<Rightarrow> store \<Rightarrow> Module list outcome \<times> store" where
  "create_each e [] createdModules s = (Resolved createdModules, s)"
| "create_each e (moduleData # rest) createdModules s =
     (case createModule e moduleData s of
        (Resolved createdModule, s1) \<Rightarrow> create_each e rest (createdModules @ [createdModule]) s1
      | (Rejected msg, s1) \<Rightarrow> (Rejected msg, s1)
      | (Thrown, s1) \<Rightarrow> (Thrown, s1))"

definition seedDatabase :: "env \<Rightarrow> store \<Rightarrow> Module list outcome \<times> store" where
  "seedDatabase e s =
     (case isDatabaseEmpty e s of
        (Rejected msg, s1) \<Rightarrow> (Rejected ''Database seeding failed'', s1)
      | (Thrown, s1) \<Rightarrow> (Thrown, s1)
      | (Resolved isEmpty, s1) \<Rightarrow>
          if \<not> isEmpty then (Resolved [], s1)
          else
            (case create_each e defaultModules [] s1 of
               (Rejected msg, s2) \<Rightarrow> (Rejected ''Database seeding failed'', s2)
             | (Thrown, s2) \<Rightarrow> (Thrown, s2)
             | (Resolved createdModules, s2) \<Rightarrow> (Resolved createdModules, s2)))"

text \<open>Running the seeding routine \<open>n\<close> times in a row.\<close>

fun seed_times :: "nat \<Rightarrow> env \<Rightarrow> store \<Rightarrow> store" where
  "seed_times 0 e s = s"
| "seed_times (Suc n) e s = seed_times n e (snd (seedDatabase e s))"

section \<open>HTTP API layer\<close>

record 'a envelope =
  success :: bool
  data :: "'a option"
  error :: "string option"
  message :: "string option"

text \<open>A response with its status code, or none when the handler never answers.\<close>

datatype 'a http = Response nat "'a envelope" | NoResponse

definition failure :: "string \<Rightarrow> 'a envelope" where
  "failure msg = \<lparr>success = False, data = None, error = Some msg, message = None\<rparr>"

definition app_get_modules :: "env \<Rightarrow> store \<Rightarrow> Module list http \<times> store" where
  "app_get_modules e s =
     (case getAllModules e s of
        (Resolved modules, s1) \<Rightarrow>
          (Response 200 \<lparr>success = True, data = Some modules, error = None, message = None\<rparr>, s1)
      | (Rejected msg, s1) \<Rightarrow> (Response 500 (failure ''Failed to fetch modules''), s1)
      | (Thrown, s1) \<Rightarrow> (NoResponse, s1))"

definition app_post_modules :: "env \<Rightarrow> jsval \<Rightarrow> store \<Rightarrow> Module http \<times> store" where
  "app_post_modules e moduleData s =
     (if \<not> truthy moduleData then (Response 400 (failure ''Module data is required''), s)
      else
        (case createModule e moduleData s of
           (Resolved createdModule, s1) \<Rightarrow>
             (Response 201
                \<lparr>success = True, data = Some createdModule, error = None, message = None\<rparr>, s1)
         | (Rejected msg, s1) \<Rightarrow>
             if includesStr msg ''required'' \<or> includesStr msg ''is required'' then
               (Response 400 (failure msg), s1)
             else (Response 500 (failure ''Failed to create module''), s1)
         | (Thrown, s1) \<Rightarrow> (NoResponse, s1)))"


definition app_delete_modules :: "env \<Rightarrow> jsstring \<Rightarrow> store \<Rightarrow> unit http \<times> store" where
  "app_delete_modules e id_param s =
     (let moduleId = parseInt id_param in
      if isNaN moduleId \<or> le_zero moduleId then
        (Response 400 (failure ''Valid module ID is required''), s)
      else
        (case deleteModule e moduleId s of
           (Resolved deleted, s1) \<Rightarrow>
             (Response 200
                \<lparr>success = True, data = None, error = None,
                 message = Some ''Module deleted successfully''\<rparr>, s1)
         | (Rejected msg, s1) \<Rightarrow>
             if includesStr msg ''not found'' then (Response 404 (failure msg), s1)
             else if includesStr msg ''required'' \<or> includesStr msg ''is required'' then
               (Response 400 (failure msg), s1)
             else (Response 500 (failure ''Failed to delete module''), s1)
         | (Thrown, s1) \<Rightarrow> (NoResponse, s1)))"

section \<open>Client API module\<close>

text \<open>
  What \<open>fetch\<close> does with a request: it rejects with an exception, or it resolves with
  a response whose \<open>json()\<close> either throws or yields the envelope that the interface
  \<open>ApiResponse\<close> declares. \<open>response.ok\<close> is a status from 200 to 299.
\<close>

datatype js_exn = Exn (is_TypeError: bool) (exn_message: string)

record 'a response =
  status :: nat
  statusText :: string
  json :: "js_exn + 'a envelope"

datatype 'a fetch_result = FetchRejected js_exn | FetchResolved "'a response"

record 'a ApiError =
  err_message :: string
  err_status :: nat
  err_response :: "'a envelope option"

datatype ('a, 'b) thrown = Returned 'b | ThrowApiError "'a ApiError" | ThrowTypeError

definition ok :: "'a response \<Rightarrow> bool" where
  "ok r \<longleftrightarrow> 200 \<le> status r \<and> status r \<le> 299"

text \<open>\<open>data.error || fallback\<close>.\<close>

definition error_or :: "'a envelope \<Rightarrow> string \<Rightarrow> string" where
  "error_or d fallback =
     (case error d of None \<Rightarrow> fallback | Some m \<Rightarrow> if m \<noteq> [] then m else fallback)"

definition network_error_message :: string where
  "network_error_message =
     ''Network error: Unable to connect to server. Please check your connection.''"

text \<open>The catch block of \<open>apiRequest\<close> for an exception that is not an \<open>ApiError\<close>.\<close>

definition catch_other :: "js_exn \<Rightarrow> 'a ApiError" where
  "catch_other ex =
     (if is_TypeError ex \<and> includesStr (exn_message ex) ''fetch'' then
        \<lparr>err_message = network_error_message, err_status = 0, err_response = None\<rparr>
      else \<lparr>err_message = exn_message ex, err_status = 0, err_response = None\<rparr>)"

definition apiRequest :: "'a fetch_result \<Rightarrow> ('a, 'a option) thrown" where
  "apiRequest fr =
     (case fr of
        FetchRejected ex \<Rightarrow> ThrowApiError (catch_other ex)
      | FetchResolved r \<Rightarrow>
          (case json r of
             Inl ex \<Rightarrow> ThrowApiError (catch_other ex)
           | Inr d \<Rightarrow>
               if \<not> ok r then
                 ThrowApiError
                   \<lparr>err_message =
                      error_or d (''HTTP '' @ show_nat (status r) @ '': '' @ statusText r),
                    err_status = status r, err_response = Some d\<rparr>
               else if \<not> success d then
                 ThrowApiError
                   \<lparr>err_message = error_or d ''API request failed'',
                    err_status = status r, err_response = Some d\<rparr>
               else Returned (data d)))"

text \<open>
  \<open>!v?.trim()\<close>: the optional call yields undefined for null and undefined, trims a
  string, and throws a TypeError for any other value, which has no method \<open>trim\<close>.
\<close>

fun not_trimmed :: "jsval \<Rightarrow> bool option" where
  "not_trimmed JUndefined = Some True"
| "not_trimmed JNull = Some True"
| "not_trimmed (JString t) = Some (trim t = [])"
| "not_trimmed v = None"

text \<open>\<open>!c?.name?.trim()\<close>.\<close>

definition not_trimmed_name :: "jsval \<Rightarrow> bool option" where
  "not_trimmed_name c =
     (if c = JUndefined \<or> c = JNull then Some True else not_trimmed (get c ''name''))"

definition api_error_400 :: "string \<Rightarrow> 'a ApiError" where
  "api_error_400 msg = \<lparr>err_message = msg, err_status = 400, err_response = None\<rparr>"

text \<open>
  The three pre-flight checks shared by the client's \<open>createModule\<close> and
  \<open>updateModule\<close>, then the request. Reading \<open>moduleData.prompt\<close> of null or undefined
  throws a TypeError, and so does reading the timestamps of an absent payload.
\<close>

definition client_request :: "jsval \<Rightarrow> Module fetch_result \<Rightarrow> (Module, Module) thrown" where
  "client_request moduleData fr =
     (if moduleData = JUndefined \<or> moduleData = JNull then ThrowTypeError
      else
        (case not_trimmed (get moduleData ''prompt'') of
           None \<Rightarrow> ThrowTypeError
         | Some True \<Rightarrow> ThrowApiError (api_error_400 ''Prompt is required'')
         | Some False \<Rightarrow>
             (case not_trimmed_name (get moduleData ''en'') of
                None \<Rightarrow> ThrowTypeError
              | Some True \<Rightarrow> ThrowApiError (api_error_400 ''English name is required'')
              | Some False \<Rightarrow>
                  (case not_trimmed_name (get moduleData ''kn'') of
                     None \<Rightarrow> ThrowTypeError
                   | Some True \<Rightarrow> ThrowApiError (api_error_400 ''Kannada name is required'')
                   | Some False \<Rightarrow>
                       (case apiRequest fr of
                          Returned None \<Rightarrow> ThrowTypeError
                        | Returned (Some m) \<Rightarrow> Returned m
                        | ThrowApiError err \<Rightarrow> ThrowApiError err
                        | ThrowTypeError \<Rightarrow> ThrowTypeError)))))"

definition client_createModule :: "jsval \<Rightarrow> Module fetch_result \<Rightarrow> (Module, Module) thrown" where
  "client_createModule moduleData fr = client_request moduleData fr"

definition client_updateModule ::
    "jsnum \<Rightarrow> jsval \<Rightarrow> Module fetch_result \<Rightarrow> (Module, Module) thrown" where
  "client_updateModule idv moduleData fr =
     (if num_falsy idv \<or> le_zero idv then
        ThrowApiError (api_error_400 ''Valid module ID is required'')
      else client_request moduleData fr)"

section \<open>Notions used by the properties\<close>

text \<open>A run in which no other request touches the database between two statements.\<close>

definition quiet :: "env \<Rightarrow> bool" where
  "quiet e \<longleftrightarrow> (\<forall>n s. others e n s = s)"

text \<open>
  The validation rule in the words of the specification: a required text is missing
  unless it is a string that is non-empty after trimming; the checks run in the order
  prompt, English name, Kannada name, and the first one that fails decides the message.
\<close>

definition blank :: "jsval \<Rightarrow> bool" where
  "blank v = (case v of JString t \<Rightarrow> trim t = [] | _ \<Rightarrow> True)"

definition first_violation :: "jsval \<Rightarrow> string option" where
  "first_violation d =
     (if blank (get d ''prompt'') then Some ''Module prompt is required''
      else if blank (get (get d ''en'') ''name'') then Some ''English name is required''
      else if blank (get (get d ''kn'') ''name'') then Some ''Kannada name is required''
      else None)"

text \<open>A well-formed id: a positive integer.\<close>

definition valid_id :: "jsnum \<Rightarrow> bool" where
  "valid_id idv \<longleftrightarrow> \<not> (num_falsy idv \<or> \<not> isInteger idv \<or> le_zero idv)"

text \<open>A request body that passes the repository's validation.\<close>

definition acceptable :: "jsval \<Rightarrow> bool" where
  "acceptable d \<longleftrightarrow> truthy d \<and> typeof d = ''object'' \<and> first_violation d = None"

text \<open>
  A number on which the model and a double agree: NaN, or a value below \<open>2^53\<close> in
  absolute value, which \<open>parseInt\<close> does not round and a template literal prints in
  plain digits.
\<close>

definition exact_num :: "jsnum \<Rightarrow> bool" where
  "exact_num n = (case n of NaN \<Rightarrow> True | Num q \<Rightarrow> \<bar>q\<bar> < 2 ^ 53)"

text \<open>The value a promise resolved with, if it did.\<close>

fun resolved :: "'a outcome \<Rightarrow> 'a option" where
  "resolved (Resolved x) = Some x"
| "resolved (Rejected msg) = None"
| "resolved Thrown = None"


text \<open>The row that an INSERT for \<open>moduleData\<close> adds to store \<open>s\<close>.\<close>

definition new_row :: "env \<Rightarrow> jsval \<Rightarrow> store \<Rightarrow> row" where
  "new_row e moduleData s =
     (case params_of e moduleData of (p, en_n, en_d, en_i, kn_n, kn_d, kn_i) \<Rightarrow>
        \<lparr>row_id = next_id s, row_prompt = p, en_name = en_n, en_description = en_d,
         en_input_placeholder = en_i, kn_name = kn_n, kn_description = kn_d,
         kn_input_placeholder = kn_i, created_at = clock e (stmts s),
         updated_at = clock e (stmts s)\<rparr>)"

text \<open>The store after a creation of \<open>moduleData\<close> that succeeded in a quiet run.\<close>

definition after_create :: "env \<Rightarrow> jsval \<Rightarrow> store \<Rightarrow> store" where
  "after_create e moduleData s =
     s\<lparr>table := table s @ [new_row e moduleData s], seq := next_id s,
       stmts := Suc (Suc (stmts s))\<rparr>"

text \<open>
  An optional field as the caller's type \<open>ModuleContent\<close> allows it: a string, null or
  absent; and what reading it back is expected to give: the string, or null for an
  absent or empty one.
\<close>

definition text_or_absent :: "jsval \<Rightarrow> bool" where
  "text_or_absent v = (case v of JString t \<Rightarrow> True | JNull \<Rightarrow> True | JUndefined \<Rightarrow> True | _ \<Rightarrow> False)"


text \<open>
  The message of the client's pre-flight check that corresponds to a message of the
  repository: the same text, except for the prompt.
\<close>

definition client_message :: "string \<Rightarrow> string" where
  "client_message m = (if m = ''Module prompt is required'' then ''Prompt is required'' else m)"

text \<open>What the client does once its pre-flight checks have passed.\<close>

definition send_request :: "Module fetch_result \<Rightarrow> (Module, Module) thrown" where
  "send_request fr =
     (case apiRequest fr of
        Returned None \<Rightarrow> ThrowTypeError
      | Returned (Some m) \<Rightarrow> Returned m
      | ThrowApiError err \<Rightarrow> ThrowApiError err
      | ThrowTypeError \<Rightarrow> ThrowTypeError)"

text \<open>
  A sequence of requests served one after the other, with the ids that successful
  creations returned, oldest first.
\<close>

datatype request = Create jsval | Update jsnum jsval | Delete jsnum | ListAll | Seed

fun serve :: "env \<Rightarrow> request \<Rightarrow> store \<Rightarrow> nat list \<times> store" where
  "serve e (Create d) s =
     (case createModule e d s of
        (Resolved m, s1) \<Rightarrow> ([mod_id m], s1)
      | (Rejected msg, s1) \<Rightarrow> ([], s1)
      | (Thrown, s1) \<Rightarrow> ([], s1))"
| "serve e (Update idv d) s = ([], snd (updateModule e idv d s))"
| "serve e (Delete idv) s = ([], snd (deleteModule e idv s))"
| "serve e ListAll s = ([], snd (getAllModules e s))"
| "serve e Seed s =
     (case seedDatabase e s of
        (Resolved ms, s1) \<Rightarrow> (map mod_id ms, s1)
      | (Rejected msg, s1) \<Rightarrow> ([], s1)
      | (Thrown, s1) \<Rightarrow> ([], s1))"

fun history :: "env \<Rightarrow> request list \<Rightarrow> store \<Rightarrow> nat list \<times> store" where
  "history e [] s = ([], s)"
| "history e (r # rs) s =
     (case serve e r s of (ids, s1) \<Rightarrow>
        (case history e rs s1 of (ids', s2) \<Rightarrow> (ids @ ids', s2)))"

text \<open>
  The stores that a seeding of store \<open>s\<close> goes through: after the emptiness check and
  after each of the three creations.
\<close>

definition checked :: "store \<Rightarrow> store" where
  "checked s = s\<lparr>stmts := Suc (stmts s)\<rparr>"

definition seeded1 :: "env \<Rightarrow> store \<Rightarrow> store" where
  "seeded1 e s = after_create e default_summarizer (checked s)"

definition seeded2 :: "env \<Rightarrow> store \<Rightarrow> store" where
  "seeded2 e s = after_create e default_email_writer (seeded1 e s)"

definition seeded3 :: "env \<Rightarrow> store \<Rightarrow> store" where
  "seeded3 e s = after_create e default_image_analysis (seeded2 e s)"

text \<open>The modules that the three creations return.\<close>

definition seeded_modules :: "env \<Rightarrow> store \<Rightarrow> Module list" where
  "seeded_modules e s =
     [to_module (new_row e default_summarizer (checked s)),
      to_module (new_row e default_email_writer (seeded1 e s)),
      to_module (new_row e default_image_analysis (seeded2 e s))]"

text \<open>The prompt that the stored row of a default module carries.\<close>

definition stored_prompt :: "jsval \<Rightarrow> jsstring" where
  "stored_prompt d = trim (str_of (get d ''prompt''))"

section \<open>Sample inputs\<close>

text \<open>
  A run without faults and without other requests, whose clock advances by one second
  per statement, and a run of the same kind whose clock stands still, as when all
  statements execute within one second.
\<close>

definition ticking_env :: env where
  "ticking_env =
     \<lparr>fails = (\<lambda>n. False), clock = (\<lambda>n. 1000 + n), others = (\<lambda>n s. s),
      text_of = (\<lambda>v. js ''[object Object]'')\<rparr>"

definition same_second_env :: env where
  "same_second_env =
     \<lparr>fails = (\<lambda>n. False), clock = (\<lambda>n. 1000), others = (\<lambda>n s. s),
      text_of = (\<lambda>v. js ''[object Object]'')\<rparr>"

text \<open>A run whose fourth statement (number 3) fails.\<close>

definition faulty_env :: env where
  "faulty_env =
     \<lparr>fails = (\<lambda>n. n = 3), clock = (\<lambda>n. 1000 + n), others = (\<lambda>n s. s),
      text_of = (\<lambda>v. js ''[object Object]'')\<rparr>"

text \<open>
  A run in which another request empties the table between the first and the second
  statement.
\<close>

definition racing_env :: env where
  "racing_env =
     \<lparr>fails = (\<lambda>n. False), clock = (\<lambda>n. 1000 + n),
      others = (\<lambda>n s. if n = 1 then s\<lparr>table := []\<rparr> else s),
      text_of = (\<lambda>v. js ''[object Object]'')\<rparr>"

text \<open>A database that never held a row.\<close>

definition empty_store :: store where
  "empty_store = \<lparr>table = [], seq = 0, stmts = 0\<rparr>"

text \<open>A request body with a prompt and the two names, all other fields absent.\<close>

definition content :: "string \<Rightarrow> jsval" where
  "content n = JObject [(''name'', JString (js n))]"

definition request_body :: "string \<Rightarrow> string \<Rightarrow> string \<Rightarrow> jsval" where
  "request_body p en_n kn_n =
     JObject [(''prompt'', JString (js p)), (''en'', content en_n), (''kn'', content kn_n)]"

text \<open>A store that holds one module, with id 1.\<close>

definition one_row_store :: store where
  "one_row_store =
     \<lparr>table = [new_row ticking_env (request_body ''Summarize:'' ''Summarizer'' ''S'') empty_store],
      seq = 1, stmts = 0\<rparr>"
section \<open>Validation order\<close>

lemma check_is_blank:
  "(\<not> truthy v \<or> typeof v \<noteq> ''string'' \<or> trim (str_of v) = []) = blank v"
  by (cases v) (auto simp: blank_def trim_def)

lemma name_check_is_blank:
  "(\<not> truthy c \<or> blank (get c ''name'')) = blank (get c ''name'')"
proof (cases "truthy c")
  case True
  then show ?thesis by simp
next
  case False
  then have "get c ''name'' = JUndefined" by (cases c) auto
  with False show ?thesis by (simp add: blank_def)
qed

lemma stmts_arrive [simp]: "stmts (arrive e s) = Suc (stmts s)"
  by (simp add: arrive_def)

lemma stmts_db_get: "stmts (snd (db_get e i s)) = Suc (stmts s)"
  by (simp add: db_get_def Let_def)

lemma stmts_db_insert: "stmts (snd (db_insert e ps s)) = Suc (stmts s)"
  by (cases ps) (simp add: db_insert_def Let_def)

lemma stmts_db_update: "stmts (snd (db_update e ps i s)) = Suc (stmts s)"
  by (simp add: db_update_def Let_def)

lemma stmts_db_delete: "stmts (snd (db_delete e i s)) = Suc (stmts s)"
  by (simp add: db_delete_def Let_def)

lemma stmts_db_all: "stmts (snd (db_all e s)) = Suc (stmts s)"
  by (simp add: db_all_def Let_def)

lemma createModule_rejects:
  assumes "truthy d" "typeof d = ''object''" "first_violation d = Some msg"
  shows "createModule e d s = (Rejected msg, s)"
  using assms
  unfolding createModule_def first_violation_def
  by (simp only: check_is_blank name_check_is_blank) (auto split: if_splits)

lemma createModule_accepts:
  assumes "truthy d" "typeof d = ''object''" "first_violation d = None"
  shows "createModule e d s =
     (case db_insert e (params_of e d) s of
        (DbErr, s1) \<Rightarrow> (Rejected ''Failed to create module in database'', s1)
      | (DbOk lastID, s1) \<Rightarrow>
          (case db_get e lastID s1 of
             (DbErr, s2) \<Rightarrow> (Rejected ''Module created but failed to retrieve'', s2)
           | (DbOk None, s2) \<Rightarrow> (Thrown, s2)
           | (DbOk (Some r), s2) \<Rightarrow> (Resolved (to_module r), s2)))"
  using assms
  unfolding createModule_def first_violation_def
  by (simp only: check_is_blank name_check_is_blank) (auto split: if_splits)

lemma createModule_issues:
  assumes "truthy d" "typeof d = ''object''" "first_violation d = None"
  shows "stmts s < stmts (snd (createModule e d s))"
proof -
  obtain x s1 where i: "db_insert e (params_of e d) s = (x, s1)" by (cases "db_insert e (params_of e d) s")
  then have s1: "stmts s1 = Suc (stmts s)" using stmts_db_insert [of e "params_of e d" s] by simp
  show ?thesis
  proof (cases x)
    case DbErr
    with i s1 show ?thesis by (simp add: createModule_accepts [OF assms])
  next
    case (DbOk lastID)
    obtain y s2 where g: "db_get e lastID s1 = (y, s2)" by (cases "db_get e lastID s1")
    then have "stmts s2 = Suc (stmts s1)" using stmts_db_get [of e lastID s1] by simp
    with i s1 g DbOk show ?thesis
      by (simp add: createModule_accepts [OF assms] split: dbres.splits option.splits)
  qed
qed

lemma updateModule_rejects:
  assumes "valid_id idv" "truthy d" "typeof d = ''object''" "first_violation d = Some msg"
  shows "updateModule e idv d s = (Rejected msg, s)"
  using assms
  unfolding updateModule_def first_violation_def valid_id_def
  by (simp only: check_is_blank name_check_is_blank) (auto split: if_splits)

lemma updateModule_accepts:
  assumes "valid_id idv" "truthy d" "typeof d = ''object''" "first_violation d = None"
  shows "updateModule e idv d s =
     (case db_get e (id_of idv) s of
        (DbErr, s1) \<Rightarrow> (Rejected ''Failed to verify module existence'', s1)
      | (DbOk None, s1) \<Rightarrow>
          (Rejected (''Module with ID '' @ show_nat (id_of idv) @ '' not found''), s1)
      | (DbOk (Some found), s1) \<Rightarrow>
          (case db_update e (params_of e d) (id_of idv) s1 of
             (DbErr, s2) \<Rightarrow> (Rejected ''Failed to update module in database'', s2)
           | (DbOk changes, s2) \<Rightarrow>
               (case db_get e (id_of idv) s2 of
                  (DbErr, s3) \<Rightarrow> (Rejected ''Module updated but failed to retrieve'', s3)
                | (DbOk None, s3) \<Rightarrow> (Thrown, s3)
                | (DbOk (Some r), s3) \<Rightarrow> (Resolved (to_module r), s3))))"
  using assms
  unfolding updateModule_def first_violation_def valid_id_def
  by (simp only: check_is_blank name_check_is_blank) (auto split: if_splits)

lemma updateModule_issues:
  assumes "valid_id idv" "truthy d" "typeof d = ''object''" "first_violation d = None"
  shows "stmts s < stmts (snd (updateModule e idv d s))"
proof -
  obtain x s1 where g: "db_get e (id_of idv) s = (x, s1)" by (cases "db_get e (id_of idv) s")
  then have s1: "stmts s1 = Suc (stmts s)" using stmts_db_get [of e "id_of idv" s] by simp
  obtain y s2 where u: "db_update e (params_of e d) (id_of idv) s1 = (y, s2)"
    by (cases "db_update e (params_of e d) (id_of idv) s1")
  then have s2: "stmts s2 = Suc (stmts s1)"
    using stmts_db_update [of e "params_of e d" "id_of idv" s1] by simp
  obtain z s3 where h: "db_get e (id_of idv) s2 = (z, s3)" by (cases "db_get e (id_of idv) s2")
  then have s3: "stmts s3 = Suc (stmts s2)" using stmts_db_get [of e "id_of idv" s2] by simp
  from g s1 u s2 h s3 show ?thesis
    by (simp add: updateModule_accepts [OF assms] split: dbres.splits option.splits)
qed

text \<open>
  C2. For a request whose body is an object, create (and update, once the id is
  accepted) checks prompt, then en.name, then kn.name, each for being a string that is
  non-empty after trimming. The first check that fails rejects with the message naming
  that field and leaves the store as it was, with no statement issued; when none fails,
  at least one statement is issued.
\<close>

theorem validation_order:
  assumes "truthy d" and "typeof d = ''object''"
  shows "(first_violation d = Some msg \<longrightarrow> createModule e d s = (Rejected msg, s))
       \<and> (first_violation d = None \<longrightarrow> stmts s < stmts (snd (createModule e d s)))
       \<and> (valid_id idv \<longrightarrow> first_violation d = Some msg \<longrightarrow>
            updateModule e idv d s = (Rejected msg, s))
       \<and> (valid_id idv \<longrightarrow> first_violation d = None \<longrightarrow>
            stmts s < stmts (snd (updateModule e idv d s)))"
  using assms createModule_rejects createModule_issues updateModule_rejects updateModule_issues
  by blast

lemmas sample_simps =
  request_body_def content_def js_def trim_def isWhiteSpace_def blank_def first_violation_def

theorem validation_order_witness:
  "createModule ticking_env (request_body '' '' ''Summarizer'' ''S'') empty_store
     = (Rejected ''Module prompt is required'', empty_store)
   \<and> createModule ticking_env (request_body ''Summarize:'' '''' '''') empty_store
     = (Rejected ''English name is required'', empty_store)
   \<and> updateModule ticking_env (Num 1) (request_body ''Summarize:'' ''Summarizer'' ''  '') empty_store
     = (Rejected ''Kannada name is required'', empty_store)
   \<and> stmts empty_store
     < stmts (snd (createModule ticking_env (request_body ''Summarize:'' ''Summarizer'' ''S'') empty_store))
   \<and> stmts empty_store
     < stmts (snd (updateModule ticking_env (Num 1) (request_body ''Summarize:'' ''Summarizer'' ''S'') empty_store))"
proof -
  have v: "valid_id (Num 1)" by (simp add: valid_id_def)
  have a: "first_violation (request_body '' '' ''Summarizer'' ''S'') = Some ''Module prompt is required''"
    by (simp add: sample_simps)
  have b: "first_violation (request_body ''Summarize:'' '''' '''') = Some ''English name is required''"
    by (simp add: sample_simps)
  have c: "first_violation (request_body ''Summarize:'' ''Summarizer'' ''  '') = Some ''Kannada name is required''"
    by (simp add: sample_simps)
  have d: "first_violation (request_body ''Summarize:'' ''Summarizer'' ''S'') = None"
    by (simp add: sample_simps)
  have t: "\<And>p x y. truthy (request_body p x y) \<and> typeof (request_body p x y) = ''object''"
    by (simp add: request_body_def)
  show ?thesis
    using validation_order [of "request_body '' '' ''Summarizer'' ''S''" "''Module prompt is required''"
            ticking_env empty_store "Num 1"]
          validation_order [of "request_body ''Summarize:'' '''' ''''" "''English name is required''"
            ticking_env empty_store "Num 1"]
          validation_order [of "request_body ''Summarize:'' ''Summarizer'' ''  ''"
            "''Kannada name is required''" ticking_env empty_store "Num 1"]
          validation_order [of "request_body ''Summarize:'' ''Summarizer'' ''S''" "''x''"
            ticking_env empty_store "Num 1"]
          v a b c d t
    by simp
qed

section \<open>The repository in a quiet run\<close>

lemma arrive_quiet: "quiet e \<Longrightarrow> arrive e s = s\<lparr>stmts := Suc (stmts s)\<rparr>"
  by (simp add: arrive_def quiet_def)

lemma row_id_le_foldr_max: "r \<in> set rs \<Longrightarrow> row_id r \<le> foldr max (map row_id rs) 0"
  by (induction rs) auto

lemma row_id_less_next_id: "r \<in> set (table s) \<Longrightarrow> row_id r < next_id s"
  using row_id_le_foldr_max [of r "table s"] by (simp add: next_id_def)

lemma seq_less_next_id: "seq s < next_id s"
  by (simp add: next_id_def)

lemma find_fresh: "\<forall>r \<in> set rs. row_id r \<noteq> i \<Longrightarrow> find (\<lambda>r. row_id r = i) rs = None"
  by (induction rs) auto

lemma find_append_fresh:
  "\<forall>r \<in> set rs. row_id r \<noteq> row_id x \<Longrightarrow> find (\<lambda>r. row_id r = row_id x) (rs @ [x]) = Some x"
  by (induction rs) auto

lemma row_id_new_row [simp]: "row_id (new_row e d s) = next_id s"
  by (cases "params_of e d") (simp add: new_row_def)

lemma find_new_row:
  "find (\<lambda>r. row_id r = next_id s) (table s @ [new_row e d s]) = Some (new_row e d s)"
proof -
  have "\<forall>r \<in> set (table s). row_id r \<noteq> row_id (new_row e d s)"
    using row_id_less_next_id [of _ s] by fastforce
  from find_append_fresh [OF this] show ?thesis by simp
qed

lemma next_id_stmts [simp]: "next_id (s\<lparr>stmts := n\<rparr>) = next_id s"
  by (simp add: next_id_def)

lemma new_row_stmts: "new_row e d (s\<lparr>stmts := n\<rparr>) = (new_row e d s)\<lparr>created_at := clock e n, updated_at := clock e n\<rparr>"
  by (cases "params_of e d") (simp add: new_row_def)

lemma db_insert_quiet:
  assumes "quiet e" "\<not> fails e (stmts s)"
  shows "db_insert e (params_of e d) s =
     (DbOk (next_id s),
      s\<lparr>table := table s @ [new_row e d s], seq := next_id s, stmts := Suc (stmts s)\<rparr>)"
  using assms
  by (cases "params_of e d") (simp add: db_insert_def arrive_quiet new_row_def Let_def)

lemma db_fails_quiet:
  assumes "quiet e" "fails e (stmts s)"
  shows "db_insert e ps s = (DbErr, s\<lparr>stmts := Suc (stmts s)\<rparr>)"
    and "db_get e i s = (DbErr, s\<lparr>stmts := Suc (stmts s)\<rparr>)"
    and "db_update e ps i s = (DbErr, s\<lparr>stmts := Suc (stmts s)\<rparr>)"
    and "db_delete e i s = (DbErr, s\<lparr>stmts := Suc (stmts s)\<rparr>)"
    and "db_all e s = (DbErr, s\<lparr>stmts := Suc (stmts s)\<rparr>)"
  using assms
  by (simp_all add: db_insert_def db_get_def db_update_def db_delete_def db_all_def arrive_quiet)

lemma db_get_quiet:
  assumes "quiet e" "\<not> fails e (stmts s)"
  shows "db_get e i s = (DbOk (find (\<lambda>r. row_id r = i) (table s)), s\<lparr>stmts := Suc (stmts s)\<rparr>)"
  using assms by (simp add: db_get_def arrive_quiet)

lemma createModule_ok:
  assumes "quiet e" "acceptable d" "\<not> fails e (stmts s)" "\<not> fails e (Suc (stmts s))"
  shows "createModule e d s =
     (Resolved (to_module (new_row e d s)),
      s\<lparr>table := table s @ [new_row e d s], seq := next_id s, stmts := Suc (Suc (stmts s))\<rparr>)"
proof -
  from assms(2) have a: "truthy d" "typeof d = ''object''" "first_violation d = None"
    by (simp_all add: acceptable_def)
  show ?thesis
    using assms(1,3,4)
    by (simp add: createModule_accepts [OF a] db_insert_quiet db_get_quiet find_new_row)
qed

lemma createModule_insert_fails:
  assumes "quiet e" "acceptable d" "fails e (stmts s)"
  shows "createModule e d s =
     (Rejected ''Failed to create module in database'', s\<lparr>stmts := Suc (stmts s)\<rparr>)"
proof -
  from assms(2) have a: "truthy d" "typeof d = ''object''" "first_violation d = None"
    by (simp_all add: acceptable_def)
  show ?thesis
    using assms(1,3) by (simp add: createModule_accepts [OF a] db_fails_quiet)
qed

lemma createModule_reread_fails:
  assumes "quiet e" "acceptable d" "\<not> fails e (stmts s)" "fails e (Suc (stmts s))"
  shows "createModule e d s =
     (Rejected ''Module created but failed to retrieve'',
      s\<lparr>table := table s @ [new_row e d s], seq := next_id s, stmts := Suc (Suc (stmts s))\<rparr>)"
proof -
  from assms(2) have a: "truthy d" "typeof d = ''object''" "first_violation d = None"
    by (simp_all add: acceptable_def)
  show ?thesis
    using assms(1,3,4)
    by (simp add: createModule_accepts [OF a] db_insert_quiet db_fails_quiet)
qed

lemma to_module_new_row:
  "to_module (new_row e d s) =
     \<lparr>mod_id = next_id s,
      prompt = trim (str_of (get d ''prompt'')),
      en = \<lparr>name = trim (str_of (get (get d ''en'') ''name'')),
            description = bind_text e (get (get d ''en'') ''description''),
            inputPlaceholder = bind_text e (get (get d ''en'') ''inputPlaceholder'')\<rparr>,
      kn = \<lparr>name = trim (str_of (get (get d ''kn'') ''name'')),
            description = bind_text e (get (get d ''kn'') ''description''),
            inputPlaceholder = bind_text e (get (get d ''kn'') ''inputPlaceholder'')\<rparr>,
      createdAt = clock e (stmts s), updatedAt = clock e (stmts s)\<rparr>"
  by (simp add: to_module_def new_row_def params_of_def)

lemma createModule_quiet_cases:
  assumes "quiet e"
  shows "(\<exists>msg. createModule e d s = (Rejected msg, s))
       \<or> createModule e d s =
           (Rejected ''Failed to create module in database'', s\<lparr>stmts := Suc (stmts s)\<rparr>)
       \<or> createModule e d s =
           (Rejected ''Module created but failed to retrieve'',
            s\<lparr>table := table s @ [new_row e d s], seq := next_id s,
              stmts := Suc (Suc (stmts s))\<rparr>)
       \<or> createModule e d s =
           (Resolved (to_module (new_row e d s)),
            s\<lparr>table := table s @ [new_row e d s], seq := next_id s,
              stmts := Suc (Suc (stmts s))\<rparr>)"
proof (cases "acceptable d")
  case True
  then show ?thesis
    using createModule_ok [OF assms True, of s] createModule_insert_fails [OF assms True, of s]
      createModule_reread_fails [OF assms True, of s]
    by blast
next
  case False
  show ?thesis
  proof (cases "truthy d \<and> typeof d = ''object''")
    case True
    with False obtain msg where "first_violation d = Some msg"
      by (auto simp: acceptable_def)
    with True have "createModule e d s = (Rejected msg, s)"
      by (simp add: createModule_rejects)
    then show ?thesis by blast
  next
    case False
    then have "createModule e d s = (Rejected ''Module data is required'', s)"
      by (auto simp: createModule_def)
    then show ?thesis by blast
  qed
qed


lemma id_of_of_nat [simp]: "id_of (Num (of_nat k)) = k"
  by simp


lemma quiet_samples [simp]: "quiet ticking_env" "quiet same_second_env"
  by (simp_all add: quiet_def ticking_env_def same_second_env_def)

lemma no_faults_samples [simp]: "\<not> fails ticking_env n" "\<not> fails same_second_env n"
  by (simp_all add: ticking_env_def same_second_env_def)

lemma acceptable_request_body:
  "trim (js p) \<noteq> [] \<Longrightarrow> trim (js a) \<noteq> [] \<Longrightarrow> trim (js b) \<noteq> [] \<Longrightarrow>
     acceptable (request_body p a b)"
  by (simp add: acceptable_def request_body_def content_def first_violation_def blank_def)

lemma db_delete_quiet:
  assumes "quiet e" "\<not> fails e (stmts s)"
  shows "db_delete e i s =
     (DbOk (length (filter (\<lambda>r. row_id r = i) (table s))),
      s\<lparr>table := filter (\<lambda>r. row_id r \<noteq> i) (table s), stmts := Suc (stmts s)\<rparr>)"
  using assms by (simp add: db_delete_def arrive_quiet)

lemma db_update_quiet:
  assumes "quiet e" "\<not> fails e (stmts s)"
  shows "db_update e ps i s =
     (DbOk (length (filter (\<lambda>r. row_id r = i) (table s))),
      s\<lparr>table := map (\<lambda>r. if row_id r = i then set_content ps (clock e (stmts s)) r else r)
                       (table s),
        stmts := Suc (stmts s)\<rparr>)"
  using assms by (simp add: db_update_def arrive_quiet)

lemma db_all_quiet:
  assumes "quiet e" "\<not> fails e (stmts s)"
  shows "db_all e s = (DbOk (order_by_created_at_desc (table s)), s\<lparr>stmts := Suc (stmts s)\<rparr>)"
  using assms by (simp add: db_all_def arrive_quiet)

section \<open>Round trip of a creation\<close>




section \<open>Fresh ids\<close>

lemma createModule_seq:
  assumes "quiet e" and "createModule e d s = (out, s')"
  shows "seq s \<le> seq s'"
    and "out = Resolved m \<Longrightarrow>
           mod_id m = seq s' \<and> seq s < mod_id m \<and> createdAt m = updatedAt m
           \<and> mod_id m \<notin> row_id ` set (table s)"
proof -
  have n: "mod_id (to_module (new_row e d s)) \<notin> row_id ` set (table s)"
    using row_id_less_next_id [of _ s] by (fastforce simp: to_module_new_row)
  from createModule_quiet_cases [OF assms(1), of d s] assms(2)
  show "seq s \<le> seq s'"
    using seq_less_next_id [of s] by auto
  from createModule_quiet_cases [OF assms(1), of d s] assms(2) n
  show "out = Resolved m \<Longrightarrow>
           mod_id m = seq s' \<and> seq s < mod_id m \<and> createdAt m = updatedAt m
           \<and> mod_id m \<notin> row_id ` set (table s)"
    using seq_less_next_id [of s] by (auto simp: to_module_new_row)
qed

lemma db_seq_quiet:
  assumes "quiet e"
  shows "seq (snd (db_get e i s)) = seq s"
    and "seq (snd (db_update e ps i s)) = seq s"
    and "seq (snd (db_delete e i s)) = seq s"
    and "seq (snd (db_all e s)) = seq s"
  using assms
  by (simp_all add: db_get_def db_update_def db_delete_def db_all_def arrive_quiet Let_def)

lemma updateModule_seq:
  assumes "quiet e"
  shows "seq (snd (updateModule e idv d s)) = seq s"
proof -
  obtain x s1 where g: "db_get e (id_of idv) s = (x, s1)" by (cases "db_get e (id_of idv) s")
  obtain y s2 where u: "db_update e (params_of e d) (id_of idv) s1 = (y, s2)"
    by (cases "db_update e (params_of e d) (id_of idv) s1")
  obtain z s3 where h: "db_get e (id_of idv) s2 = (z, s3)" by (cases "db_get e (id_of idv) s2")
  have "seq s1 = seq s" using db_seq_quiet(1) [OF assms, of "id_of idv" s] g by simp
  moreover have "seq s2 = seq s1"
    using db_seq_quiet(2) [OF assms, of "params_of e d" "id_of idv" s1] u by simp
  moreover have "seq s3 = seq s2" using db_seq_quiet(1) [OF assms, of "id_of idv" s2] h by simp
  ultimately show ?thesis
    using g u h
    by (simp add: updateModule_def split: dbres.splits option.splits)
qed

lemma deleteModule_seq:
  assumes "quiet e"
  shows "seq (snd (deleteModule e idv s)) = seq s"
proof -
  obtain x s1 where g: "db_get e (id_of idv) s = (x, s1)" by (cases "db_get e (id_of idv) s")
  obtain y s2 where u: "db_delete e (id_of idv) s1 = (y, s2)"
    by (cases "db_delete e (id_of idv) s1")
  have "seq s1 = seq s" using db_seq_quiet(1) [OF assms, of "id_of idv" s] g by simp
  moreover have "seq s2 = seq s1" using db_seq_quiet(3) [OF assms, of "id_of idv" s1] u by simp
  ultimately show ?thesis
    using g u by (simp add: deleteModule_def split: dbres.splits option.splits)
qed

lemma getAllModules_seq:
  assumes "quiet e"
  shows "seq (snd (getAllModules e s)) = seq s"
  using db_seq_quiet(4) [OF assms, of s]
  by (cases "db_all e s") (simp add: getAllModules_def split: dbres.splits)

lemma create_each_seq:
  assumes "quiet e"
  shows "create_each e ds acc s = (out, s') \<Longrightarrow> \<forall>m \<in> set acc. mod_id m \<le> seq s \<Longrightarrow>
           seq s \<le> seq s' \<and> (\<forall>ms. out = Resolved ms \<longrightarrow> (\<forall>m \<in> set ms. mod_id m \<le> seq s'))"
proof (induction ds arbitrary: acc s)
  case Nil
  then show ?case by auto
next
  case (Cons d ds)
  obtain o1 s1 where c: "createModule e d s = (o1, s1)" by (cases "createModule e d s")
  note m = createModule_seq [OF assms c]
  show ?case
  proof (cases o1)
    case (Resolved x)
    with c Cons.prems(1) have r: "create_each e ds (acc @ [x]) s1 = (out, s')" by simp
    have "\<forall>m \<in> set (acc @ [x]). mod_id m \<le> seq s1"
      using Cons.prems(2) m(1) m(2) [of x] Resolved by fastforce
    from Cons.IH [OF r this] m(1) show ?thesis by auto
  next
    case (Rejected msg)
    with c Cons.prems(1) m(1) show ?thesis by auto
  next
    case Thrown
    with c Cons.prems(1) m(1) show ?thesis by auto
  qed
qed

lemma seedDatabase_seq:
  assumes "quiet e" and "seedDatabase e s = (out, s')"
  shows "seq s \<le> seq s' \<and> (\<forall>ms. out = Resolved ms \<longrightarrow> (\<forall>m \<in> set ms. mod_id m \<le> seq s'))"
proof -
  obtain o1 s1 where g: "getAllModules e s = (o1, s1)" by (cases "getAllModules e s")
  then have s1: "seq s1 = seq s" using getAllModules_seq [OF assms(1), of s] by simp
  obtain o2 s2 where c: "create_each e defaultModules [] s1 = (o2, s2)"
    by (cases "create_each e defaultModules [] s1")
  from create_each_seq [OF assms(1) c] s1
  have k: "seq s \<le> seq s2" "\<And>ms. o2 = Resolved ms \<Longrightarrow> \<forall>m \<in> set ms. mod_id m \<le> seq s2"
    by auto
  show ?thesis
    using assms(2) g c s1 k
    by (auto simp: seedDatabase_def isDatabaseEmpty_def split: outcome.splits if_splits)
qed

lemma serve_seq:
  assumes "quiet e" and "serve e r s = (ids, s')"
  shows "seq s \<le> seq s' \<and> (\<forall>i \<in> set ids. i \<le> seq s')"
proof (cases r)
  case (Create d)
  obtain o1 s1 where c: "createModule e d s = (o1, s1)" by (cases "createModule e d s")
  from createModule_seq [OF assms(1) c] assms(2) Create c show ?thesis
    by (cases o1) auto
next
  case (Update idv d)
  with assms(2) updateModule_seq [OF assms(1), of idv d s] show ?thesis by auto
next
  case (Delete idv)
  with assms(2) deleteModule_seq [OF assms(1), of idv s] show ?thesis by auto
next
  case ListAll
  with assms(2) getAllModules_seq [OF assms(1), of s] show ?thesis by auto
next
  case Seed
  obtain o1 s1 where c: "seedDatabase e s = (o1, s1)" by (cases "seedDatabase e s")
  from seedDatabase_seq [OF assms(1) c] assms(2) Seed c show ?thesis
    by (cases o1) auto
qed

lemma history_seq:
  assumes "quiet e"
  shows "history e rs s = (ids, s') \<Longrightarrow> seq s \<le> seq s' \<and> (\<forall>i \<in> set ids. i \<le> seq s')"
proof (induction rs arbitrary: s ids s')
  case Nil
  then show ?case by simp
next
  case (Cons r rs)
  obtain i1 s1 where a: "serve e r s = (i1, s1)" by (cases "serve e r s")
  obtain i2 s2 where b: "history e rs s1 = (i2, s2)" by (cases "history e rs s1")
  from Cons.prems a b have eq: "ids = i1 @ i2" "s' = s2" by simp_all
  from serve_seq [OF assms a] Cons.IH [OF b] eq show ?case by fastforce
qed

text \<open>
  C7. In a run without interleaved requests, after any sequence of requests (creations,
  updates, deletions, listings, seedings) served from any store, a creation that
  succeeds returns a positive id that none of the earlier creations returned and that no
  stored row carries, and its createdAt equals its updatedAt.
\<close>

theorem created_id_fresh:
  assumes "quiet e" and "history e rs s0 = (ids, s)"
    and "createModule e d s = (Resolved m, s')"
  shows "0 < mod_id m \<and> mod_id m \<notin> set ids \<and> mod_id m \<notin> row_id ` set (table s)
       \<and> createdAt m = updatedAt m"
proof -
  from history_seq [OF assms(1,2)] have "\<forall>i \<in> set ids. i \<le> seq s" by simp
  moreover from createModule_seq(2) [OF assms(1,3), of m]
  have "seq s < mod_id m" "createdAt m = updatedAt m" "mod_id m \<notin> row_id ` set (table s)"
    by blast+
  ultimately show ?thesis by fastforce
qed

theorem created_id_fresh_witness:
  "history ticking_env
       [Create (request_body ''Summarize:'' ''Summarizer'' ''S''), Delete (Num 1)] empty_store
     = ([1], \<lparr>table = [], seq = 1, stmts = 4\<rparr>)
   \<and> createModule ticking_env (request_body ''Translate:'' ''Translator'' ''T'')
        \<lparr>table = [], seq = 1, stmts = 4\<rparr>
     = (Resolved (to_module (new_row ticking_env
            (request_body ''Translate:'' ''Translator'' ''T'') \<lparr>table = [], seq = 1, stmts = 4\<rparr>)),
        \<lparr>table = [new_row ticking_env (request_body ''Translate:'' ''Translator'' ''T'')
                    \<lparr>table = [], seq = 1, stmts = 4\<rparr>],
         seq = 2, stmts = 6\<rparr>)
   \<and> mod_id (to_module (new_row ticking_env
          (request_body ''Translate:'' ''Translator'' ''T'') \<lparr>table = [], seq = 1, stmts = 4\<rparr>)) = 2
   \<and> createdAt (to_module (new_row ticking_env
          (request_body ''Translate:'' ''Translator'' ''T'') \<lparr>table = [], seq = 1, stmts = 4\<rparr>))
     = updatedAt (to_module (new_row ticking_env
          (request_body ''Translate:'' ''Translator'' ''T'') \<lparr>table = [], seq = 1, stmts = 4\<rparr>))"
proof -
  let ?b = "request_body ''Summarize:'' ''Summarizer'' ''S''"
  let ?c = "request_body ''Translate:'' ''Translator'' ''T''"
  let ?s = "\<lparr>table = [], seq = 1, stmts = 4\<rparr>"
  have t: "trim (js ''Summarize:'') \<noteq> []" "trim (js ''Summarizer'') \<noteq> []"
    "trim (js ''S'') \<noteq> []" "trim (js ''Translate:'') \<noteq> []"
    "trim (js ''Translator'') \<noteq> []" "trim (js ''T'') \<noteq> []"
    by (simp_all add: js_def trim_def isWhiteSpace_def)
  have a: "acceptable ?b" "acceptable ?c"
    by (simp_all add: acceptable_request_body t)
  have h: "history ticking_env [Create ?b, Delete (Num 1)] empty_store = ([1], ?s)"
    by (simp add: createModule_ok a to_module_new_row deleteModule_def db_get_quiet
        db_delete_quiet empty_store_def next_id_def numeral_2_eq_2 numeral_Bit0 eval_nat_numeral)
  have c: "createModule ticking_env ?c ?s
      = (Resolved (to_module (new_row ticking_env ?c ?s)),
         \<lparr>table = [new_row ticking_env ?c ?s], seq = 2, stmts = 6\<rparr>)"
    by (simp add: createModule_ok a next_id_def)
  from created_id_fresh [OF quiet_samples(1) h c] h c show ?thesis
    by (simp add: to_module_new_row next_id_def)
qed

section \<open>Timestamps of an update\<close>

lemma find_map_same_id:
  "(\<And>x. row_id (f x) = row_id x) \<Longrightarrow>
     find (\<lambda>r. row_id r = i) (map f rs) = map_option f (find (\<lambda>r. row_id r = i) rs)"
  by (induction rs) auto

lemma set_content_fixed [simp]:
  "row_id (set_content ps now r) = row_id r"
  "created_at (set_content ps now r) = created_at r"
  "updated_at (set_content ps now r) = now"
  by (cases ps; simp add: set_content_def)+

lemma find_after_update:
  "find (\<lambda>r. row_id r = i) (map (\<lambda>r. if row_id r = i then set_content ps now r else r) rs)
     = map_option (set_content ps now) (find (\<lambda>r. row_id r = i) rs)"
  by (induction rs) auto

lemma find_Some_row_id: "find (\<lambda>r. row_id r = i) rs = Some r0 \<Longrightarrow> row_id r0 = i"
  by (induction rs) (auto split: if_splits)

lemma updateModule_ok:
  assumes "quiet e" "valid_id idv" "acceptable d"
    and "\<not> fails e (stmts s)" "\<not> fails e (Suc (stmts s))" "\<not> fails e (Suc (Suc (stmts s)))"
    and "find (\<lambda>r. row_id r = id_of idv) (table s) = Some r0"
  shows "updateModule e idv d s =
     (Resolved (to_module (set_content (params_of e d) (clock e (Suc (stmts s))) r0)),
      s\<lparr>table := map (\<lambda>r. if row_id r = id_of idv
                            then set_content (params_of e d) (clock e (Suc (stmts s))) r else r)
                       (table s),
        stmts := Suc (Suc (Suc (stmts s)))\<rparr>)"
proof -
  from assms(3) have a: "truthy d" "typeof d = ''object''" "first_violation d = None"
    by (simp_all add: acceptable_def)
  show ?thesis
    using assms(1,4-7)
    by (simp add: updateModule_accepts [OF assms(2) a] db_get_quiet db_update_quiet
        find_after_update)
qed

lemma updateModule_resolved:
  assumes "quiet e" and "updateModule e idv d s = (Resolved m, s')"
  shows "\<exists>r0. find (\<lambda>r. row_id r = id_of idv) (table s) = Some r0
      \<and> m = to_module (set_content (params_of e d) (clock e (Suc (stmts s))) r0)"
proof -
  have v: "valid_id idv"
    using assms(2) by (auto simp: updateModule_def valid_id_def split: if_splits)
  have t: "truthy d \<and> typeof d = ''object''"
    using assms(2) v by (auto simp: updateModule_def valid_id_def split: if_splits)
  have f: "first_violation d = None"
  proof (cases "first_violation d")
    case (Some msg)
    with updateModule_rejects [OF v _ _ Some, of e s] t assms(2) show ?thesis by simp
  qed simp
  note acc = updateModule_accepts [OF v _ _ f, of e s]
  have n0: "\<not> fails e (stmts s)"
    using assms t by (auto simp: acc db_fails_quiet)
  obtain r0 where r0: "find (\<lambda>r. row_id r = id_of idv) (table s) = Some r0"
    using assms t n0 by (cases "find (\<lambda>r. row_id r = id_of idv) (table s)")
      (auto simp: acc db_get_quiet)
  have n1: "\<not> fails e (Suc (stmts s))"
    using assms t n0 r0 by (auto simp: acc db_get_quiet db_fails_quiet)
  have n2: "\<not> fails e (Suc (Suc (stmts s)))"
    using assms t n0 r0 n1 by (auto simp: acc db_get_quiet db_update_quiet db_fails_quiet)
  have "acceptable d" using t f by (simp add: acceptable_def)
  from updateModule_ok [OF assms(1) v this n0 n1 n2 r0] assms(2) r0 show ?thesis by simp
qed

text \<open>
  C1 as amended. For every successful update, in a run without interleaved requests,
  the returned entity has the id and the createdAt of the row that the module had
  before the update, and its updatedAt is the second that the clock of the store reads
  at the UPDATE statement: it is later than the previous updatedAt exactly when that
  second is later, and the same when the update runs within the second of the previous
  write.
\<close>

theorem update_timestamps:
  assumes "quiet e" and "updateModule e idv d s = (Resolved m, s')"
  shows "\<exists>r0. find (\<lambda>r. row_id r = id_of idv) (table s) = Some r0
      \<and> mod_id m = row_id r0 \<and> createdAt m = created_at r0
      \<and> updatedAt m = clock e (Suc (stmts s))
      \<and> (updated_at r0 < updatedAt m \<longleftrightarrow> updated_at r0 < clock e (Suc (stmts s)))"
proof -
  from updateModule_resolved [OF assms] obtain r0 where
    r0: "find (\<lambda>r. row_id r = id_of idv) (table s) = Some r0"
    and m: "m = to_module (set_content (params_of e d) (clock e (Suc (stmts s))) r0)"
    by blast
  from m have "mod_id m = row_id r0" "createdAt m = created_at r0"
    "updatedAt m = clock e (Suc (stmts s))"
    by (simp_all add: to_module_def)
  with r0 show ?thesis by simp
qed

lemma sample_texts:
  "trim (js ''Summarize:'') \<noteq> []" "trim (js ''Summarizer'') \<noteq> []"
  "trim (js ''S'') \<noteq> []" "trim (js ''Translate:'') \<noteq> []"
  "trim (js ''Translator'') \<noteq> []" "trim (js ''T'') \<noteq> []"
  by (simp_all add: js_def trim_def isWhiteSpace_def)

lemma sample_bodies:
  "acceptable (request_body ''Summarize:'' ''Summarizer'' ''S'')"
  "acceptable (request_body ''Translate:'' ''Translator'' ''T'')"
  by (simp_all add: acceptable_request_body sample_texts)

lemma created_then_updated:
  assumes "quiet e" and "\<forall>n. \<not> fails e n"
  shows "updateModule e (Num 1) (request_body ''Translate:'' ''Translator'' ''T'')
           (snd (createModule e (request_body ''Summarize:'' ''Summarizer'' ''S'') empty_store))
     = (Resolved (to_module (set_content
           (params_of e (request_body ''Translate:'' ''Translator'' ''T'')) (clock e 3)
           (new_row e (request_body ''Summarize:'' ''Summarizer'' ''S'') empty_store))),
        \<lparr>table = [set_content
           (params_of e (request_body ''Translate:'' ''Translator'' ''T'')) (clock e 3)
           (new_row e (request_body ''Summarize:'' ''Summarizer'' ''S'') empty_store)],
         seq = 1, stmts = 5\<rparr>)"
    and "find (\<lambda>r. row_id r = 1)
           (table (snd (createModule e (request_body ''Summarize:'' ''Summarizer'' ''S'') empty_store)))
     = Some (new_row e (request_body ''Summarize:'' ''Summarizer'' ''S'') empty_store)"
    and "table (snd (createModule e (request_body ''Summarize:'' ''Summarizer'' ''S'') empty_store))
     = [new_row e (request_body ''Summarize:'' ''Summarizer'' ''S'') empty_store]"
proof -
  let ?b = "request_body ''Summarize:'' ''Summarizer'' ''S''"
  let ?c = "request_body ''Translate:'' ''Translator'' ''T''"
  let ?s1 = "\<lparr>table = [new_row e ?b empty_store], seq = 1, stmts = 2\<rparr>"
  have n: "next_id empty_store = 1" by (simp add: next_id_def empty_store_def)
  have c: "snd (createModule e ?b empty_store) = ?s1"
    using assms by (simp add: createModule_ok sample_bodies n) (simp add: empty_store_def)
  have f: "find (\<lambda>r. row_id r = id_of (Num 1)) (table ?s1) = Some (new_row e ?b empty_store)"
    by (simp add: n)
  have v: "valid_id (Num 1)" by (simp add: valid_id_def)
  from updateModule_ok [OF assms(1) v sample_bodies(2) _ _ _ f] assms(2)
  show "updateModule e (Num 1) ?c (snd (createModule e ?b empty_store))
     = (Resolved (to_module (set_content (params_of e ?c) (clock e 3) (new_row e ?b empty_store))),
        \<lparr>table = [set_content (params_of e ?c) (clock e 3) (new_row e ?b empty_store)],
         seq = 1, stmts = 5\<rparr>)"
    unfolding c by (simp add: n eval_nat_numeral)
  from f show "find (\<lambda>r. row_id r = 1) (table (snd (createModule e ?b empty_store)))
     = Some (new_row e ?b empty_store)"
    unfolding c by simp
  show "table (snd (createModule e ?b empty_store)) = [new_row e ?b empty_store]"
    unfolding c by simp
qed

theorem update_timestamps_witness:
  "\<exists>r0. find (\<lambda>r. row_id r = id_of (Num 1))
           (table (snd (createModule ticking_env
              (request_body ''Summarize:'' ''Summarizer'' ''S'') empty_store))) = Some r0
      \<and> row_id r0 = 1 \<and> created_at r0 = 1000 \<and> updated_at r0 = 1000
      \<and> map_option mod_id (resolved (fst (updateModule ticking_env (Num 1)
            (request_body ''Translate:'' ''Translator'' ''T'')
            (snd (createModule ticking_env
              (request_body ''Summarize:'' ''Summarizer'' ''S'') empty_store))))) = Some 1
      \<and> map_option createdAt (resolved (fst (updateModule ticking_env (Num 1)
            (request_body ''Translate:'' ''Translator'' ''T'')
            (snd (createModule ticking_env
              (request_body ''Summarize:'' ''Summarizer'' ''S'') empty_store))))) = Some 1000
      \<and> map_option updatedAt (resolved (fst (updateModule ticking_env (Num 1)
            (request_body ''Translate:'' ''Translator'' ''T'')
            (snd (createModule ticking_env
              (request_body ''Summarize:'' ''Summarizer'' ''S'') empty_store))))) = Some 1003"
proof -
  have nf: "\<forall>n. \<not> fails ticking_env n" by simp
  note u = created_then_updated [OF quiet_samples(1) nf]
  have s: "stmts (snd (createModule ticking_env
      (request_body ''Summarize:'' ''Summarizer'' ''S'') empty_store)) = 2"
    by (simp add: createModule_ok sample_bodies empty_store_def)
  have k: "clock ticking_env 0 = 1000" "clock ticking_env 3 = 1003"
    by (simp_all add: ticking_env_def)
  from update_timestamps [OF quiet_samples(1) u(1)] u s k show ?thesis
    by (simp add: to_module_def new_row_def params_of_def empty_store_def next_id_def)
qed

text \<open>
  The claim as stated fails: a module created and updated within one second keeps the
  updatedAt it had.
\<close>

theorem update_same_second_counterexample:
  "map_option updatedAt (resolved (fst (updateModule same_second_env (Num 1)
        (request_body ''Translate:'' ''Translator'' ''T'')
        (snd (createModule same_second_env
          (request_body ''Summarize:'' ''Summarizer'' ''S'') empty_store))))) = Some 1000
   \<and> map updated_at
        (table (snd (createModule same_second_env
          (request_body ''Summarize:'' ''Summarizer'' ''S'') empty_store))) = [1000]
   \<and> map row_id
        (table (snd (createModule same_second_env
          (request_body ''Summarize:'' ''Summarizer'' ''S'') empty_store))) = [1]"
proof -
  have nf: "\<forall>n. \<not> fails same_second_env n" by simp
  note u = created_then_updated [OF quiet_samples(2) nf]
  have k: "\<And>n. clock same_second_env n = 1000" by (simp add: same_second_env_def)
  from u k show ?thesis
    by (simp add: to_module_def new_row_def params_of_def empty_store_def next_id_def)
qed

section \<open>Seeding\<close>

lemma defaults_acceptable [simp]:
  "acceptable default_summarizer"
  "acceptable default_email_writer"
  "acceptable default_image_analysis"
  by (simp_all add: acceptable_def default_summarizer_def default_email_writer_def
      default_image_analysis_def first_violation_def blank_def js_def trim_def isWhiteSpace_def)

lemma createModule_after:
  assumes "quiet e" "acceptable d" "\<not> fails e (stmts s)" "\<not> fails e (Suc (stmts s))"
  shows "createModule e d s = (Resolved (to_module (new_row e d s)), after_create e d s)"
  using createModule_ok [OF assms] by (simp add: after_create_def)

lemma createModule_reread_fails_after:
  assumes "quiet e" "acceptable d" "\<not> fails e (stmts s)" "fails e (Suc (stmts s))"
  shows "createModule e d s =
     (Rejected ''Module created but failed to retrieve'', after_create e d s)"
  using createModule_reread_fails [OF assms] by (simp add: after_create_def)

lemma after_create_fields [simp]:
  "table (after_create e d s) = table s @ [new_row e d s]"
  "seq (after_create e d s) = next_id s"
  "stmts (after_create e d s) = Suc (Suc (stmts s))"
  by (simp_all add: after_create_def)

lemma checked_fields [simp]:
  "table (checked s) = table s" "seq (checked s) = seq s" "stmts (checked s) = Suc (stmts s)"
  by (simp_all add: checked_def)

lemma seeded_stmts [simp]:
  "stmts (seeded1 e s) = Suc (Suc (Suc (stmts s)))"
  "stmts (seeded2 e s) = Suc (Suc (Suc (Suc (Suc (stmts s)))))"
  "stmts (seeded3 e s) = Suc (Suc (Suc (Suc (Suc (Suc (Suc (stmts s)))))))"
  by (simp_all add: seeded1_def seeded2_def seeded3_def)

lemma seeded_tables:
  "table (seeded1 e s) = table s @ [new_row e default_summarizer (checked s)]"
  "table (seeded2 e s) = table s @ [new_row e default_summarizer (checked s),
      new_row e default_email_writer (seeded1 e s)]"
  "table (seeded3 e s) = table s @ [new_row e default_summarizer (checked s),
      new_row e default_email_writer (seeded1 e s),
      new_row e default_image_analysis (seeded2 e s)]"
  by (simp_all add: seeded1_def seeded2_def seeded3_def)

lemma length_order_by [simp]: "length (order_by_created_at_desc rs) = length rs"
  by (simp add: order_by_created_at_desc_def)

lemma isDatabaseEmpty_quiet:
  assumes "quiet e"
  shows "isDatabaseEmpty e s =
     (if fails e (stmts s) then (Rejected ''Failed to check database state'', checked s)
      else (Resolved (table s = []), checked s))"
  using assms
  by (simp add: isDatabaseEmpty_def getAllModules_def db_all_quiet db_fails_quiet checked_def)

lemma seedDatabase_nonempty:
  assumes "quiet e" "table s \<noteq> []"
  shows "seedDatabase e s =
     (if fails e (stmts s) then (Rejected ''Database seeding failed'', checked s)
      else (Resolved [], checked s))"
  using assms by (simp add: seedDatabase_def isDatabaseEmpty_quiet)

lemma seedDatabase_empty:
  assumes "quiet e" "table s = []" "\<not> fails e (stmts s)"
  shows "seedDatabase e s =
     (case create_each e defaultModules [] (checked s) of
        (Rejected msg, s2) \<Rightarrow> (Rejected ''Database seeding failed'', s2)
      | (Thrown, s2) \<Rightarrow> (Thrown, s2)
      | (Resolved createdModules, s2) \<Rightarrow> (Resolved createdModules, s2))"
  using assms by (simp add: seedDatabase_def isDatabaseEmpty_quiet)

lemma seedDatabase_fresh:
  assumes "quiet e" "table s = []" "\<forall>k<7. \<not> fails e (stmts s + k)"
  shows "seedDatabase e s = (Resolved (seeded_modules e s), seeded3 e s)"
proof -
  have f: "\<not> fails e (stmts s)" "\<not> fails e (Suc (stmts s))" "\<not> fails e (Suc (Suc (stmts s)))"
    "\<not> fails e (Suc (Suc (Suc (stmts s))))" "\<not> fails e (Suc (Suc (Suc (Suc (stmts s)))))"
    "\<not> fails e (Suc (Suc (Suc (Suc (Suc (stmts s))))))"
    "\<not> fails e (Suc (Suc (Suc (Suc (Suc (Suc (stmts s)))))))"
    using assms(3) [rule_format, of 0] assms(3) [rule_format, of 1] assms(3) [rule_format, of 2]
      assms(3) [rule_format, of 3] assms(3) [rule_format, of 4] assms(3) [rule_format, of 5]
      assms(3) [rule_format, of 6]
    by (simp_all add: eval_nat_numeral)
  show ?thesis
    using assms(1,2) f
    by (simp add: seedDatabase_empty defaultModules_def createModule_after seeded1_def [symmetric]
        seeded2_def [symmetric] seeded3_def [symmetric] seeded_modules_def)
qed

lemma seed_times_nonempty:
  assumes "quiet e"
  shows "table s \<noteq> [] \<Longrightarrow> table (seed_times n e s) = table s"
proof (induction n arbitrary: s)
  case 0
  then show ?case by simp
next
  case (Suc n)
  have "table (snd (seedDatabase e s)) = table s"
    using Suc.prems by (simp add: seedDatabase_nonempty [OF assms])
  with Suc show ?case by simp
qed

lemma seedDatabase_stops:
  assumes "quiet e" "table s = []" "k < 6"
    and "\<forall>j\<le>k. \<not> fails e (stmts s + j)" "fails e (stmts s + Suc k)"
  shows "fst (seedDatabase e s) = Rejected ''Database seeding failed''
       \<and> stmts (snd (seedDatabase e s)) = stmts s + k + 2
       \<and> table (snd (seedDatabase e s)) = take (Suc k div 2) (table (seeded3 e s))"
proof -
  have f0: "\<not> fails e (stmts s)" using assms(4) [rule_format, of 0] by simp
  note base = seedDatabase_empty [OF assms(1,2) f0] defaultModules_def createModule_after
    createModule_insert_fails createModule_reread_fails_after
    seeded1_def [symmetric] seeded2_def [symmetric] seeded3_def [symmetric] seeded_tables assms(1,2)
  from assms(3) consider "k = 0" | "k = 1" | "k = 2" | "k = 3" | "k = 4" | "k = 5" by linarith
  then show ?thesis
  proof cases
    case 1
    with assms(5) have "fails e (Suc (stmts s))" by simp
    with 1 show ?thesis by (simp add: base checked_def)
  next
    case 2
    with assms(4) [rule_format, of 1] assms(5)
    have "\<not> fails e (Suc (stmts s))" "fails e (Suc (Suc (stmts s)))"
      by (simp_all add: eval_nat_numeral)
    with 2 show ?thesis by (simp add: base)
  next
    case 3
    with assms(4) [rule_format, of 1] assms(4) [rule_format, of 2] assms(5)
    have "\<not> fails e (Suc (stmts s))" "\<not> fails e (Suc (Suc (stmts s)))"
      "fails e (Suc (Suc (Suc (stmts s))))"
      by (simp_all add: eval_nat_numeral)
    with 3 show ?thesis by (simp add: base)
  next
    case 4
    with assms(4) [rule_format, of 1] assms(4) [rule_format, of 2] assms(4) [rule_format, of 3]
      assms(5)
    have "\<not> fails e (Suc (stmts s))" "\<not> fails e (Suc (Suc (stmts s)))"
      "\<not> fails e (Suc (Suc (Suc (stmts s))))" "fails e (Suc (Suc (Suc (Suc (stmts s)))))"
      by (simp_all add: eval_nat_numeral)
    with 4 show ?thesis by (simp add: base)
  next
    case 5
    with assms(4) [rule_format, of 1] assms(4) [rule_format, of 2] assms(4) [rule_format, of 3]
      assms(4) [rule_format, of 4] assms(5)
    have "\<not> fails e (Suc (stmts s))" "\<not> fails e (Suc (Suc (stmts s)))"
      "\<not> fails e (Suc (Suc (Suc (stmts s))))" "\<not> fails e (Suc (Suc (Suc (Suc (stmts s)))))"
      "fails e (Suc (Suc (Suc (Suc (Suc (stmts s))))))"
      by (simp_all add: eval_nat_numeral)
    with 5 show ?thesis by (simp add: base)
  next
    case 6
    with assms(4) [rule_format, of 1] assms(4) [rule_format, of 2] assms(4) [rule_format, of 3]
      assms(4) [rule_format, of 4] assms(4) [rule_format, of 5] assms(5)
    have "\<not> fails e (Suc (stmts s))" "\<not> fails e (Suc (Suc (stmts s)))"
      "\<not> fails e (Suc (Suc (Suc (stmts s))))" "\<not> fails e (Suc (Suc (Suc (Suc (stmts s)))))"
      "\<not> fails e (Suc (Suc (Suc (Suc (Suc (stmts s))))))"
      "fails e (Suc (Suc (Suc (Suc (Suc (Suc (stmts s)))))))"
      by (simp_all add: eval_nat_numeral)
    with 6 show ?thesis by (simp add: base)
  qed
qed

lemma row_prompt_new_row [simp]: "row_prompt (new_row e d s) = stored_prompt d"
  by (simp add: new_row_def params_of_def stored_prompt_def)

lemma seeded3_prompts:
  "table s = [] \<Longrightarrow> map row_prompt (table (seeded3 e s)) = map stored_prompt defaultModules"
  by (simp add: seeded_tables defaultModules_def)

lemma seeded3_modules:
  "table s = [] \<Longrightarrow> map to_module (table (seeded3 e s)) = seeded_modules e s"
  by (simp add: seeded_tables seeded_modules_def)

text \<open>
  C3. In a run without interleaved requests: on a non-empty store the seeding routine
  issues only its listing statement, creates nothing and returns the empty list (or
  rejects, when that statement fails), leaving the rows as they are. On an empty store
  and without storage faults it creates the three default modules, and any number of
  further runs leaves exactly these three rows. When the first storage fault hits the
  statement number \<open>k + 1\<close> after the listing, the routine rejects with "Database
  seeding failed", issues no further statement, and the rows created so far stay.
\<close>

theorem seeding_idempotent:
  assumes "quiet e"
  shows "(table s \<noteq> [] \<longrightarrow>
            table (snd (seedDatabase e s)) = table s
          \<and> stmts (snd (seedDatabase e s)) = Suc (stmts s)
          \<and> (fst (seedDatabase e s) = Resolved []
               \<or> fst (seedDatabase e s) = Rejected ''Database seeding failed'')
          \<and> (\<not> fails e (stmts s) \<longrightarrow> fst (seedDatabase e s) = Resolved []))
       \<and> (table s = [] \<and> (\<forall>j<7. \<not> fails e (stmts s + j)) \<longrightarrow>
            fst (seedDatabase e s) = Resolved (seeded_modules e s)
          \<and> map to_module (table (snd (seedDatabase e s))) = seeded_modules e s
          \<and> map row_prompt (table (snd (seedDatabase e s))) = map stored_prompt defaultModules
          \<and> length (table (snd (seedDatabase e s))) = 3
          \<and> (\<forall>n. table (seed_times n e (snd (seedDatabase e s)))
                  = table (snd (seedDatabase e s))))
       \<and> (table s = [] \<and> k < 6 \<and> (\<forall>j\<le>k. \<not> fails e (stmts s + j)) \<and> fails e (stmts s + Suc k) \<longrightarrow>
            fst (seedDatabase e s) = Rejected ''Database seeding failed''
          \<and> stmts (snd (seedDatabase e s)) = stmts s + k + 2
          \<and> map row_prompt (table (snd (seedDatabase e s)))
              = take (Suc k div 2) (map stored_prompt defaultModules))"
proof (intro conjI impI)
  assume n: "table s \<noteq> []"
  show "table (snd (seedDatabase e s)) = table s"
    and "stmts (snd (seedDatabase e s)) = Suc (stmts s)"
    and "fst (seedDatabase e s) = Resolved []
       \<or> fst (seedDatabase e s) = Rejected ''Database seeding failed''"
    by (simp_all add: seedDatabase_nonempty [OF assms n])
  assume "\<not> fails e (stmts s)"
  then show "fst (seedDatabase e s) = Resolved []"
    by (simp add: seedDatabase_nonempty [OF assms n])
next
  assume "table s = [] \<and> (\<forall>j<7. \<not> fails e (stmts s + j))"
  then have t: "table s = []" and f: "\<forall>j<7. \<not> fails e (stmts s + j)" by simp_all
  note r = seedDatabase_fresh [OF assms t f]
  show "fst (seedDatabase e s) = Resolved (seeded_modules e s)" by (simp add: r)
  show "map to_module (table (snd (seedDatabase e s))) = seeded_modules e s"
    by (simp add: r seeded3_modules [OF t])
  show "map row_prompt (table (snd (seedDatabase e s))) = map stored_prompt defaultModules"
    by (simp add: r seeded3_prompts [OF t])
  show "length (table (snd (seedDatabase e s))) = 3"
    by (simp add: r seeded_tables t)
  have "table (seeded3 e s) \<noteq> []" by (simp add: seeded_tables)
  then show "\<forall>n. table (seed_times n e (snd (seedDatabase e s))) = table (snd (seedDatabase e s))"
    by (simp add: r seed_times_nonempty [OF assms])
next
  assume a: "table s = [] \<and> k < 6 \<and> (\<forall>j\<le>k. \<not> fails e (stmts s + j)) \<and> fails e (stmts s + Suc k)"
  then have t: "table s = []" by simp
  from a seedDatabase_stops [OF assms, of s k]
  have r: "fst (seedDatabase e s) = Rejected ''Database seeding failed''"
    "stmts (snd (seedDatabase e s)) = stmts s + k + 2"
    "table (snd (seedDatabase e s)) = take (Suc k div 2) (table (seeded3 e s))"
    by simp_all
  from r(1) show "fst (seedDatabase e s) = Rejected ''Database seeding failed''" .
  from r(2) show "stmts (snd (seedDatabase e s)) = stmts s + k + 2" .
  show "map row_prompt (table (snd (seedDatabase e s)))
      = take (Suc k div 2) (map stored_prompt defaultModules)"
    unfolding r(3) take_map [symmetric] seeded3_prompts [OF t] ..
qed

theorem seeding_idempotent_witness:
  "fst (seedDatabase ticking_env empty_store) = Resolved (seeded_modules ticking_env empty_store)
   \<and> length (table (snd (seedDatabase ticking_env empty_store))) = 3
   \<and> table (seed_times 5 ticking_env (snd (seedDatabase ticking_env empty_store)))
       = table (snd (seedDatabase ticking_env empty_store))
   \<and> fst (seedDatabase ticking_env (seeded3 ticking_env empty_store)) = Resolved []
   \<and> table (snd (seedDatabase ticking_env (seeded3 ticking_env empty_store)))
       = table (seeded3 ticking_env empty_store)
   \<and> fst (seedDatabase faulty_env empty_store) = Rejected ''Database seeding failed''
   \<and> stmts (snd (seedDatabase faulty_env empty_store)) = 4
   \<and> map row_prompt (table (snd (seedDatabase faulty_env empty_store)))
       = [stored_prompt default_summarizer]"
proof -
  have q: "quiet faulty_env" by (simp add: quiet_def faulty_env_def)
  have f: "(\<forall>j\<le>2. \<not> fails faulty_env (stmts empty_store + j))"
    "fails faulty_env (stmts empty_store + Suc 2)"
    by (simp_all add: faulty_env_def empty_store_def)
  have e: "table empty_store = []" "stmts empty_store = 0" by (simp_all add: empty_store_def)
  have n: "table (seeded3 ticking_env empty_store) \<noteq> []" by (simp add: seeded_tables)
  show ?thesis
    using seeding_idempotent [OF quiet_samples(1), of empty_store 0]
      seeding_idempotent [OF quiet_samples(1), of "seeded3 ticking_env empty_store" 0]
      seeding_idempotent [OF q, of empty_store 2] f e n
    by (simp add: defaultModules_def)
qed

section \<open>Order of the listing\<close>

lemma getAllModules_quiet:
  assumes "quiet e" "\<not> fails e (stmts s)"
  shows "getAllModules e s =
     (Resolved (map to_module (order_by_created_at_desc (table s))), checked s)"
  using assms by (simp add: getAllModules_def db_all_quiet checked_def)

lemma createdAt_to_module [simp]: "createdAt (to_module r) = created_at r"
  by (simp add: to_module_def)

lemma mod_id_to_module [simp]: "mod_id (to_module r) = row_id r"
  by (simp add: to_module_def)

lemma order_by_sorted:
  "sorted_wrt (\<lambda>a b. created_at b \<le> created_at a) (order_by_created_at_desc rs)"
proof -
  have "sorted (map (\<lambda>r. - int (created_at r)) (order_by_created_at_desc rs))"
    unfolding order_by_created_at_desc_def by (rule sorted_sort_key)
  then show ?thesis by (simp add: sorted_wrt_map)
qed

lemma order_by_mset: "mset (order_by_created_at_desc rs) = mset rs"
  by (simp add: order_by_created_at_desc_def)

lemma order_by_stable:
  "filter (\<lambda>r. created_at r = t) (order_by_created_at_desc rs) = filter (\<lambda>r. created_at r = t) rs"
  using sort_key_stable [of "\<lambda>r. - int (created_at r)" "- int t" rs]
  by (simp add: order_by_created_at_desc_def)

lemma created_at_new_row [simp]: "created_at (new_row e d s) = clock e (stmts s)"
  by (cases "params_of e d") (simp add: new_row_def)

lemma order_by_three_rising:
  assumes "created_at a < created_at b" "created_at b < created_at c"
  shows "order_by_created_at_desc [a, b, c] = [c, b, a]"
  using assms by (simp add: order_by_created_at_desc_def)

lemma order_by_three_equal:
  assumes "created_at a = created_at b" "created_at b = created_at c"
  shows "order_by_created_at_desc [a, b, c] = [a, b, c]"
  using assms by (simp add: order_by_created_at_desc_def)

text \<open>
  C5 as amended. In a run without interleaved requests, a listing whose statement
  succeeds returns all modules sorted by creation time, newest first, and modules
  created within the same second in the order of their ids. For a freshly seeded,
  never-touched store the listing is therefore the three default modules in reverse
  order of their creation when the three insertions fell into three successive seconds,
  and in the order of their creation when they fell into the same second.
\<close>

theorem listing_order:
  assumes "quiet e"
  shows "(\<not> fails e (stmts s) \<longrightarrow>
            (\<exists>ms. fst (getAllModules e s) = Resolved ms
               \<and> mset ms = mset (map to_module (table s))
               \<and> sorted_wrt (\<lambda>a b. createdAt b \<le> createdAt a) ms
               \<and> (\<forall>t. filter (\<lambda>m. createdAt m = t) ms
                      = filter (\<lambda>m. createdAt m = t) (map to_module (table s)))))
       \<and> (table s = [] \<and> (\<forall>j<8. \<not> fails e (stmts s + j)) \<longrightarrow>
            fst (seedDatabase e s) = Resolved (seeded_modules e s)
          \<and> (clock e (stmts s + 1) < clock e (stmts s + 3)
               \<and> clock e (stmts s + 3) < clock e (stmts s + 5) \<longrightarrow>
              fst (getAllModules e (snd (seedDatabase e s))) = Resolved (rev (seeded_modules e s)))
          \<and> (clock e (stmts s + 1) = clock e (stmts s + 3)
               \<and> clock e (stmts s + 3) = clock e (stmts s + 5) \<longrightarrow>
              fst (getAllModules e (snd (seedDatabase e s))) = Resolved (seeded_modules e s)))"
proof (intro conjI impI)
  assume f: "\<not> fails e (stmts s)"
  let ?rs = "order_by_created_at_desc (table s)"
  have "fst (getAllModules e s) = Resolved (map to_module ?rs)"
    by (simp add: getAllModules_quiet [OF assms f])
  moreover have "mset (map to_module ?rs) = mset (map to_module (table s))"
    by (simp add: order_by_mset)
  moreover have "sorted_wrt (\<lambda>a b. createdAt b \<le> createdAt a) (map to_module ?rs)"
    using order_by_sorted [of "table s"] by (simp add: sorted_wrt_map)
  moreover have "\<forall>t. filter (\<lambda>m. createdAt m = t) (map to_module ?rs)
      = filter (\<lambda>m. createdAt m = t) (map to_module (table s))"
    by (simp add: filter_map comp_def order_by_stable)
  ultimately show "\<exists>ms. fst (getAllModules e s) = Resolved ms
      \<and> mset ms = mset (map to_module (table s))
      \<and> sorted_wrt (\<lambda>a b. createdAt b \<le> createdAt a) ms
      \<and> (\<forall>t. filter (\<lambda>m. createdAt m = t) ms
             = filter (\<lambda>m. createdAt m = t) (map to_module (table s)))"
    by blast
next
  assume a: "table s = [] \<and> (\<forall>j<8. \<not> fails e (stmts s + j))"
  then have t: "table s = []" and f8: "\<forall>j<8. \<not> fails e (stmts s + j)" by simp_all
  from f8 have f7: "\<forall>j<7. \<not> fails e (stmts s + j)" by simp
  from f8 [rule_format, of 7] have l: "\<not> fails e (stmts (seeded3 e s))"
    by (simp add: eval_nat_numeral)
  note r = seedDatabase_fresh [OF assms t f7]
  show "fst (seedDatabase e s) = Resolved (seeded_modules e s)" by (simp add: r)
  have g: "fst (getAllModules e (snd (seedDatabase e s)))
      = Resolved (map to_module (order_by_created_at_desc
          [new_row e default_summarizer (checked s),
           new_row e default_email_writer (seeded1 e s),
           new_row e default_image_analysis (seeded2 e s)]))"
    using l by (simp add: r getAllModules_quiet [OF assms] seeded_tables t)
  {
    assume "clock e (stmts s + 1) < clock e (stmts s + 3)
          \<and> clock e (stmts s + 3) < clock e (stmts s + 5)"
    then have "order_by_created_at_desc
          [new_row e default_summarizer (checked s),
           new_row e default_email_writer (seeded1 e s),
           new_row e default_image_analysis (seeded2 e s)]
        = [new_row e default_image_analysis (seeded2 e s),
           new_row e default_email_writer (seeded1 e s),
           new_row e default_summarizer (checked s)]"
      by (intro order_by_three_rising) (simp_all add: eval_nat_numeral)
    then show "fst (getAllModules e (snd (seedDatabase e s))) = Resolved (rev (seeded_modules e s))"
      by (simp add: g seeded_modules_def)
  }
  {
    assume "clock e (stmts s + 1) = clock e (stmts s + 3)
          \<and> clock e (stmts s + 3) = clock e (stmts s + 5)"
    then have "order_by_created_at_desc
          [new_row e default_summarizer (checked s),
           new_row e default_email_writer (seeded1 e s),
           new_row e default_image_analysis (seeded2 e s)]
        = [new_row e default_summarizer (checked s),
           new_row e default_email_writer (seeded1 e s),
           new_row e default_image_analysis (seeded2 e s)]"
      by (intro order_by_three_equal) (simp_all add: eval_nat_numeral)
    then show "fst (getAllModules e (snd (seedDatabase e s))) = Resolved (seeded_modules e s)"
      by (simp add: g seeded_modules_def)
  }
qed

lemma seeded_ids: "map mod_id (seeded_modules e empty_store) = [1, 2, 3]"
  by (simp add: seeded_modules_def next_id_def seeded_tables seeded1_def seeded2_def
      empty_store_def)

theorem listing_order_witness:
  "fst (getAllModules ticking_env (snd (seedDatabase ticking_env empty_store)))
     = Resolved (rev (seeded_modules ticking_env empty_store))
   \<and> fst (getAllModules same_second_env (snd (seedDatabase same_second_env empty_store)))
     = Resolved (seeded_modules same_second_env empty_store)
   \<and> (\<exists>ms. fst (getAllModules ticking_env (seeded3 ticking_env empty_store)) = Resolved ms
        \<and> mset ms = mset (map to_module (table (seeded3 ticking_env empty_store)))
        \<and> sorted_wrt (\<lambda>a b. createdAt b \<le> createdAt a) ms)"
proof -
  have e: "table empty_store = []" "stmts empty_store = 0" by (simp_all add: empty_store_def)
  have k: "\<And>n. clock ticking_env n = 1000 + n" "\<And>n. clock same_second_env n = 1000"
    by (simp_all add: ticking_env_def same_second_env_def)
  show ?thesis
    using listing_order [OF quiet_samples(1), of empty_store]
      listing_order [OF quiet_samples(2), of empty_store]
      listing_order [OF quiet_samples(1), of "seeded3 ticking_env empty_store"] e k
    by simp blast
qed

text \<open>
  The claim as stated fails: seeded within one second, the store lists the default
  modules in the order of their creation, ids 1, 2, 3, and not in the reverse order.
\<close>

theorem listing_same_second_counterexample:
  "fst (seedDatabase same_second_env empty_store)
     = Resolved (seeded_modules same_second_env empty_store)
   \<and> fst (getAllModules same_second_env (snd (seedDatabase same_second_env empty_store)))
     = Resolved (seeded_modules same_second_env empty_store)
   \<and> map mod_id (seeded_modules same_second_env empty_store) = [1, 2, 3]
   \<and> seeded_modules same_second_env empty_store \<noteq> rev (seeded_modules same_second_env empty_store)"
proof -
  have e: "table empty_store = []" by (simp add: empty_store_def)
  have f: "\<forall>j<7. \<not> fails same_second_env (stmts empty_store + j)" by simp
  note r = seedDatabase_fresh [OF quiet_samples(2) e f]
  have l: "order_by_created_at_desc
          [new_row same_second_env default_summarizer (checked empty_store),
           new_row same_second_env default_email_writer (seeded1 same_second_env empty_store),
           new_row same_second_env default_image_analysis (seeded2 same_second_env empty_store)]
        = [new_row same_second_env default_summarizer (checked empty_store),
           new_row same_second_env default_email_writer (seeded1 same_second_env empty_store),
           new_row same_second_env default_image_analysis (seeded2 same_second_env empty_store)]"
    by (intro order_by_three_equal) (simp_all add: same_second_env_def)
  have g: "fst (getAllModules same_second_env (snd (seedDatabase same_second_env empty_store)))
     = Resolved (seeded_modules same_second_env empty_store)"
    by (simp add: r getAllModules_quiet seeded_tables e l seeded_modules_def)
  have n: "seeded_modules same_second_env empty_store
      \<noteq> rev (seeded_modules same_second_env empty_store)"
  proof
    assume "seeded_modules same_second_env empty_store
      = rev (seeded_modules same_second_env empty_store)"
    then have "map mod_id (seeded_modules same_second_env empty_store)
      = rev (map mod_id (seeded_modules same_second_env empty_store))"
      by (simp add: rev_map)
    then show False by (simp add: seeded_ids)
  qed
  from r g n show ?thesis by (simp add: seeded_ids)
qed

section \<open>Failures of a deletion\<close>

lemma includesStr_self: "includesStr s s"
proof (cases s)
  case Nil
  then show ?thesis by simp
next
  case (Cons x xs)
  have "startsWith t t" for t :: string by (induction t) auto
  with Cons show ?thesis by simp
qed

lemma startsWith_append: "startsWith s sub \<Longrightarrow> startsWith (s @ t) sub"
  by (induction s sub rule: startsWith.induct) auto

lemma includesStr_append_left: "includesStr ys sub \<Longrightarrow> includesStr (xs @ ys) sub"
proof (induction xs)
  case Nil
  then show ?case by simp
next
  case (Cons x xs)
  then show ?case by simp
qed

lemma not_found_message: "includesStr (''Module with ID '' @ t @ '' not found'') ''not found''"
proof -
  have "includesStr '' not found'' ''not found''" by simp
  then have "includesStr ((''Module with ID '' @ t) @ '' not found'') ''not found''"
    by (rule includesStr_append_left)
  then show ?thesis by simp
qed

lemma valid_id_checks:
  "valid_id idv \<Longrightarrow> \<not> num_falsy idv \<and> isInteger idv \<and> \<not> le_zero idv \<and> \<not> isNaN idv"
  by (cases idv) (auto simp: valid_id_def)

lemma deleteModule_valid:
  assumes "valid_id idv"
  shows "deleteModule e idv s =
     (case db_get e (id_of idv) s of
        (DbErr, s1) \<Rightarrow> (Rejected ''Failed to verify module existence'', s1)
      | (DbOk None, s1) \<Rightarrow>
          (Rejected (''Module with ID '' @ show_nat (id_of idv) @ '' not found''), s1)
      | (DbOk (Some found), s1) \<Rightarrow>
          (case db_delete e (id_of idv) s1 of
             (DbErr, s2) \<Rightarrow> (Rejected ''Failed to delete module from database'', s2)
           | (DbOk changes, s2) \<Rightarrow>
               if changes = 0 then
                 (Rejected ''Module deletion failed - no rows affected'', s2)
               else (Resolved True, s2)))"
  using valid_id_checks [OF assms] by (simp add: deleteModule_def del: isInteger.simps)

lemma delete_not_found:
  assumes "valid_id idv" "\<not> fails e (stmts s)"
    and "find (\<lambda>r. row_id r = id_of idv) (table (arrive e s)) = None"
  shows "deleteModule e idv s =
     (Rejected (''Module with ID '' @ show_nat (id_of idv) @ '' not found''), arrive e s)"
  using assms(2,3) by (simp add: deleteModule_valid [OF assms(1)] db_get_def)

lemma delete_ineffective:
  assumes "valid_id idv" "\<not> fails e (stmts s)" "\<not> fails e (Suc (stmts s))"
    and "find (\<lambda>r. row_id r = id_of idv) (table (arrive e s)) \<noteq> None"
    and "filter (\<lambda>r. row_id r = id_of idv) (table (arrive e (arrive e s))) = []"
  shows "deleteModule e idv s =
     (Rejected ''Module deletion failed - no rows affected'',
      (arrive e (arrive e s))\<lparr>table :=
         filter (\<lambda>r. row_id r \<noteq> id_of idv) (table (arrive e (arrive e s)))\<rparr>)"
  using assms(2-5)
  by (auto simp: deleteModule_valid [OF assms(1)] db_get_def db_delete_def Let_def)

text \<open>
  C6. For a well-formed positive integer id (one that a double holds exactly), when the
  existence check succeeds as a statement: if no row matches, the deletion rejects with
  a message that contains "not found", issues no further statement, and the HTTP layer
  answers 404 with that message; if a row matched but the DELETE statement then
  affects no row, the deletion rejects with "Module deletion failed - no rows
  affected", which contains neither "not found" nor "required", and the HTTP layer
  answers 500.
\<close>

theorem delete_failures:
  assumes "valid_id idv" and "exact_num idv" and "parseInt id_param = idv"
    and "\<not> fails e (stmts s)"
  shows "(find (\<lambda>r. row_id r = id_of idv) (table (arrive e s)) = None \<longrightarrow>
            deleteModule e idv s =
              (Rejected (''Module with ID '' @ show_nat (id_of idv) @ '' not found''), arrive e s)
          \<and> includesStr (''Module with ID '' @ show_nat (id_of idv) @ '' not found'') ''not found''
          \<and> stmts (snd (deleteModule e idv s)) = Suc (stmts s)
          \<and> fst (app_delete_modules e id_param s) =
              Response 404 (failure (''Module with ID '' @ show_nat (id_of idv) @ '' not found'')))
       \<and> (find (\<lambda>r. row_id r = id_of idv) (table (arrive e s)) \<noteq> None
            \<and> \<not> fails e (Suc (stmts s))
            \<and> filter (\<lambda>r. row_id r = id_of idv) (table (arrive e (arrive e s))) = [] \<longrightarrow>
            fst (deleteModule e idv s) = Rejected ''Module deletion failed - no rows affected''
          \<and> \<not> includesStr ''Module deletion failed - no rows affected'' ''not found''
          \<and> \<not> includesStr ''Module deletion failed - no rows affected'' ''required''
          \<and> fst (app_delete_modules e id_param s) =
              Response 500 (failure ''Failed to delete module''))"
proof (intro conjI impI)
  assume n: "find (\<lambda>r. row_id r = id_of idv) (table (arrive e s)) = None"
  note d = delete_not_found [OF assms(1,4) n]
  show "deleteModule e idv s =
      (Rejected (''Module with ID '' @ show_nat (id_of idv) @ '' not found''), arrive e s)"
    by (rule d)
  show "includesStr (''Module with ID '' @ show_nat (id_of idv) @ '' not found'') ''not found''"
    by (rule not_found_message)
  show "stmts (snd (deleteModule e idv s)) = Suc (stmts s)"
    by (simp add: d)
  show "fst (app_delete_modules e id_param s) =
      Response 404 (failure (''Module with ID '' @ show_nat (id_of idv) @ '' not found''))"
    using valid_id_checks [OF assms(1)] not_found_message [of "show_nat (id_of idv)"]
    by (simp add: app_delete_modules_def assms(3) d del: isInteger.simps)
next
  assume a: "find (\<lambda>r. row_id r = id_of idv) (table (arrive e s)) \<noteq> None
      \<and> \<not> fails e (Suc (stmts s))
      \<and> filter (\<lambda>r. row_id r = id_of idv) (table (arrive e (arrive e s))) = []"
  then have d: "deleteModule e idv s =
     (Rejected ''Module deletion failed - no rows affected'',
      (arrive e (arrive e s))\<lparr>table :=
         filter (\<lambda>r. row_id r \<noteq> id_of idv) (table (arrive e (arrive e s)))\<rparr>)"
    using delete_ineffective [OF assms(1,4)] by blast
  show "fst (deleteModule e idv s) = Rejected ''Module deletion failed - no rows affected''"
    by (simp add: d)
  show n1: "\<not> includesStr ''Module deletion failed - no rows affected'' ''not found''"
    by simp
  show n2: "\<not> includesStr ''Module deletion failed - no rows affected'' ''required''"
    by simp
  have n3: "\<not> includesStr ''Module deletion failed - no rows affected'' ''is required''"
    by simp
  show "fst (app_delete_modules e id_param s) = Response 500 (failure ''Failed to delete module'')"
    using valid_id_checks [OF assms(1)] n1 n2 n3
    by (simp add: app_delete_modules_def assms(3) d del: isInteger.simps includesStr.simps)
qed

lemmas parse_simps = parseInt_def js_def isWhiteSpace_def isRadixDigit_def digitValue_def mathInt_def

theorem delete_failures_witness:
  "deleteModule ticking_env (Num 7) empty_store =
     (Rejected ''Module with ID 7 not found'', \<lparr>table = [], seq = 0, stmts = 1\<rparr>)
   \<and> fst (app_delete_modules ticking_env (js ''7'') empty_store) =
       Response 404 (failure ''Module with ID 7 not found'')
   \<and> fst (deleteModule racing_env (Num 1) one_row_store) =
       Rejected ''Module deletion failed - no rows affected''
   \<and> fst (app_delete_modules racing_env (js ''1'') one_row_store) =
       Response 500 (failure ''Failed to delete module'')"
proof -
  have v: "valid_id (Num 7)" "valid_id (Num 1)" by (simp_all add: valid_id_def)
  have x: "exact_num (Num 7)" "exact_num (Num 1)" by (simp_all add: exact_num_def)
  have p: "parseInt (js ''7'') = Num 7" "parseInt (js ''1'') = Num 1"
    by (simp_all add: parse_simps)
  have f: "\<not> fails ticking_env (stmts empty_store)" "\<not> fails racing_env (stmts one_row_store)"
    "\<not> fails racing_env (Suc (stmts one_row_store))"
    by (simp_all add: racing_env_def)
  have a: "arrive ticking_env empty_store = \<lparr>table = [], seq = 0, stmts = 1\<rparr>"
    by (simp add: arrive_def ticking_env_def empty_store_def)
  have b: "find (\<lambda>r. row_id r = id_of (Num 1)) (table (arrive racing_env one_row_store)) \<noteq> None"
    by (simp add: arrive_def racing_env_def one_row_store_def next_id_def empty_store_def)
  have c: "filter (\<lambda>r. row_id r = id_of (Num 1))
      (table (arrive racing_env (arrive racing_env one_row_store))) = []"
    by (simp add: arrive_def racing_env_def one_row_store_def)
  have s: "show_nat 7 = ''7''" by simp
  show ?thesis
    using delete_failures [OF v(1) x(1) p(1) f(1)] delete_failures [OF v(2) x(2) p(2) f(2)]
      a b c f(3) s
    by simp
qed

section \<open>The id parameter of PUT and DELETE\<close>
















section \<open>Failures seen by the client\<close>

text \<open>
  C8 as amended. When \<open>fetch\<close> rejects with a TypeError whose message contains "fetch",
  the client throws an ApiError with status 0 and the fixed network message; any other
  rejection, and a response whose body cannot be parsed, gives status 0 with the
  message of the thrown error. A failure produced from a parsed envelope (a status
  outside 200 to 299, or \<open>success: false\<close>) carries the HTTP status of the response,
  and as message the envelope's non-empty error, else the HTTP status line (status
  outside 200 to 299) or "API request failed"; whenever that status is not 0 it differs
  from the network failure.
\<close>

theorem api_failures:
  "(is_TypeError ex \<and> includesStr (exn_message ex) ''fetch'' \<longrightarrow>
      (apiRequest (FetchRejected ex) :: ('a, 'a option) thrown) =
        ThrowApiError \<lparr>err_message = network_error_message, err_status = 0, err_response = None\<rparr>)
   \<and> (\<not> (is_TypeError ex \<and> includesStr (exn_message ex) ''fetch'') \<longrightarrow>
      (apiRequest (FetchRejected ex) :: ('a, 'a option) thrown) =
        ThrowApiError \<lparr>err_message = exn_message ex, err_status = 0, err_response = None\<rparr>)
   \<and> (json r = Inl ex \<longrightarrow>
      apiRequest (FetchResolved r) = ThrowApiError (catch_other ex))
   \<and> (json r = Inr d \<and> \<not> ok r \<longrightarrow>
      apiRequest (FetchResolved r) =
        ThrowApiError
          \<lparr>err_message = error_or d (''HTTP '' @ show_nat (status r) @ '': '' @ statusText r),
           err_status = status r, err_response = Some d\<rparr>)
   \<and> (json r = Inr d \<and> ok r \<and> \<not> success d \<longrightarrow>
      apiRequest (FetchResolved r) =
        ThrowApiError
          \<lparr>err_message = error_or d ''API request failed'',
           err_status = status r, err_response = Some d\<rparr>
      \<and> status r \<noteq> 0)
   \<and> (json r = Inr d \<and> status r \<noteq> 0 \<longrightarrow>
      apiRequest (FetchResolved r) \<noteq>
        ThrowApiError \<lparr>err_message = network_error_message, err_status = 0, err_response = None\<rparr>)
   \<and> (json r = Inr d \<and> ok r \<and> success d \<longrightarrow> apiRequest (FetchResolved r) = Returned (data d))"
  by (auto simp: apiRequest_def catch_other_def ok_def)

theorem api_failures_witness:
  "(apiRequest (FetchRejected (Exn True ''Failed to fetch'')) :: (Module, Module option) thrown) =
      ThrowApiError \<lparr>err_message = network_error_message, err_status = 0, err_response = None\<rparr>
   \<and> (apiRequest (FetchRejected (Exn False ''aborted'')) :: (Module, Module option) thrown) =
      ThrowApiError \<lparr>err_message = ''aborted'', err_status = 0, err_response = None\<rparr>
   \<and> (apiRequest (FetchResolved \<lparr>status = 500, statusText = ''Internal Server Error'',
          json = Inr (failure ''Failed to fetch modules'')\<rparr>) :: (Module, Module option) thrown) =
      ThrowApiError \<lparr>err_message = ''Failed to fetch modules'', err_status = 500,
        err_response = Some (failure ''Failed to fetch modules'')\<rparr>
   \<and> (apiRequest (FetchResolved \<lparr>status = 200, statusText = ''OK'',
          json = Inr \<lparr>success = False, data = None, error = None, message = None\<rparr>\<rparr>)
          :: (Module, Module option) thrown) =
      ThrowApiError \<lparr>err_message = ''API request failed'', err_status = 200,
        err_response = Some \<lparr>success = False, data = None, error = None, message = None\<rparr>\<rparr>
   \<and> (apiRequest (FetchResolved \<lparr>status = 502, statusText = ''Bad Gateway'',
          json = Inl (Exn False ''Unexpected token < in JSON at position 0'')\<rparr>)
          :: (Module, Module option) thrown) =
      ThrowApiError (catch_other (Exn False ''Unexpected token < in JSON at position 0''))
   \<and> (apiRequest (FetchResolved \<lparr>status = 200, statusText = ''OK'',
          json = Inr \<lparr>success = True, data = None, error = None,
            message = Some ''Module deleted successfully''\<rparr>\<rparr>)
          :: (Module, Module option) thrown) = Returned None"
proof -
  have a: "is_TypeError (Exn True ''Failed to fetch'')
      \<and> includesStr (exn_message (Exn True ''Failed to fetch'')) ''fetch''"
    by simp
  have b: "\<not> (is_TypeError (Exn False ''aborted'')
      \<and> includesStr (exn_message (Exn False ''aborted'')) ''fetch'')"
    by simp
  let ?r1 = "\<lparr>status = 500, statusText = ''Internal Server Error'',
      json = Inr (failure ''Failed to fetch modules'' :: Module envelope)\<rparr>"
  let ?d2 = "\<lparr>success = False, data = None :: Module option, error = None, message = None\<rparr>"
  let ?r2 = "\<lparr>status = 200, statusText = ''OK'', json = Inr ?d2\<rparr>"
  have c: "json ?r1 = Inr (failure ''Failed to fetch modules'') \<and> \<not> ok ?r1"
    by (simp add: ok_def)
  have d: "json ?r2 = Inr ?d2 \<and> ok ?r2 \<and> \<not> success ?d2"
    by (simp add: ok_def)
  have m: "error_or (failure ''Failed to fetch modules'' :: Module envelope) t
      = ''Failed to fetch modules''" for t
    by (simp add: error_or_def failure_def)
  have n: "error_or ?d2 t = t" for t by (simp add: error_or_def)
  from api_failures [of "Exn True ''Failed to fetch''" ?r1 "failure ''Failed to fetch modules''"] a c
  have 1: "(apiRequest (FetchRejected (Exn True ''Failed to fetch'')) :: (Module, Module option) thrown) =
      ThrowApiError \<lparr>err_message = network_error_message, err_status = 0, err_response = None\<rparr>"
    and 3: "apiRequest (FetchResolved ?r1) =
      ThrowApiError \<lparr>err_message = ''Failed to fetch modules'', err_status = 500,
        err_response = Some (failure ''Failed to fetch modules'')\<rparr>"
    by (auto simp: m)
  from api_failures [of "Exn False ''aborted''" ?r2 ?d2] b d
  have 2: "(apiRequest (FetchRejected (Exn False ''aborted'')) :: (Module, Module option) thrown) =
      ThrowApiError \<lparr>err_message = ''aborted'', err_status = 0, err_response = None\<rparr>"
    and 4: "apiRequest (FetchResolved ?r2) =
      ThrowApiError \<lparr>err_message = ''API request failed'', err_status = 200,
        err_response = Some ?d2\<rparr>"
    by (auto simp: n)
  let ?x = "Exn False ''Unexpected token < in JSON at position 0''"
  let ?r3 = "\<lparr>status = 502, statusText = ''Bad Gateway'', json = Inl ?x\<rparr> :: Module response"
  let ?d4 = "\<lparr>success = True, data = None :: Module option, error = None,
      message = Some ''Module deleted successfully''\<rparr>"
  let ?r4 = "\<lparr>status = 200, statusText = ''OK'', json = Inr ?d4\<rparr>"
  have 5: "apiRequest (FetchResolved ?r3) = ThrowApiError (catch_other ?x)"
    using api_failures [where ?'a = Module and ex = ?x and r = ?r3] by simp
  have e: "json ?r4 = Inr ?d4 \<and> ok ?r4 \<and> success ?d4" by (simp add: ok_def)
  have 6: "apiRequest (FetchResolved ?r4) = Returned None"
    using api_failures [where ?'a = Module and ex = ?x and r = ?r4 and d = ?d4] e by simp
  from 1 2 3 4 5 6 show ?thesis by blast
qed

text \<open>
  The claim as stated fails twice: a transport failure whose TypeError does not mention
  "fetch" is reported with that error's own message, and a response whose body is not
  JSON is reported with status 0 and not with the HTTP status of the response.
\<close>

theorem api_failures_counterexample:
  "(apiRequest (FetchRejected (Exn True ''Load failed'')) :: (Module, Module option) thrown) =
      ThrowApiError \<lparr>err_message = ''Load failed'', err_status = 0, err_response = None\<rparr>
   \<and> ''Load failed'' \<noteq> network_error_message
   \<and> (apiRequest (FetchResolved \<lparr>status = 502, statusText = ''Bad Gateway'',
          json = Inl (Exn False ''Unexpected token < in JSON at position 0'')\<rparr>)
          :: (Module, Module option) thrown) =
      ThrowApiError \<lparr>err_message = ''Unexpected token < in JSON at position 0'', err_status = 0,
        err_response = None\<rparr>"
  by (simp add: apiRequest_def catch_other_def network_error_message_def)

section \<open>Pre-flight validation of the client\<close>

lemma not_trimmed_blank:
  "text_or_absent v \<Longrightarrow> not_trimmed v = Some (blank v)"
  by (cases v) (simp_all add: text_or_absent_def blank_def)

lemma not_trimmed_name_blank:
  "text_or_absent (get c ''name'') \<Longrightarrow> not_trimmed_name c = Some (blank (get c ''name''))"
  by (cases c) (simp_all add: not_trimmed_name_def not_trimmed_blank blank_def)

lemma client_request_checks:
  assumes "truthy d" "typeof d = ''object''"
    and "text_or_absent (get d ''prompt'')"
    and "text_or_absent (get (get d ''en'') ''name'')"
    and "text_or_absent (get (get d ''kn'') ''name'')"
  shows "client_request d fr =
     (case first_violation d of
        Some m \<Rightarrow> ThrowApiError (api_error_400 (client_message m))
      | None \<Rightarrow> send_request fr)"
proof -
  from assms(1) have n: "d \<noteq> JUndefined" "d \<noteq> JNull" by auto
  show ?thesis
    using n
    by (simp add: client_request_def first_violation_def client_message_def send_request_def
        not_trimmed_blank [OF assms(3)] not_trimmed_name_blank [OF assms(4)]
        not_trimmed_name_blank [OF assms(5)])
qed

lemma client_rejects_id:
  assumes "num_falsy idv \<or> le_zero idv"
  shows "client_updateModule idv d fr = ThrowApiError (api_error_400 ''Valid module ID is required'')"
    and "updateModule e idv d s = (Rejected ''Valid module ID is required'', s)"
  using assms by (auto simp: client_updateModule_def updateModule_def)

text \<open>
  C9 as amended. For a request object whose prompt and names are strings, null or
  absent, the client's pre-flight validation applies the repository's checks in the
  repository's order (prompt, then en.name, then kn.name, each non-empty after
  trimming): it rejects exactly the bodies that the repository rejects, with the same
  message for the two names and with "Prompt is required" where the repository says
  "Module prompt is required". For update the id is checked first: an id that is zero,
  NaN or negative is rejected with the repository's message "Valid module ID is
  required", and for any other id the body is checked as for create.
\<close>

theorem client_preflight:
  assumes "truthy d" and "typeof d = ''object''"
    and "text_or_absent (get d ''prompt'')"
    and "text_or_absent (get (get d ''en'') ''name'')"
    and "text_or_absent (get (get d ''kn'') ''name'')"
  shows "(first_violation d = Some m \<longrightarrow>
            createModule e d s = (Rejected m, s)
          \<and> client_createModule d fr = ThrowApiError (api_error_400 (client_message m))
          \<and> (m \<noteq> ''Module prompt is required'' \<longrightarrow> client_message m = m))
       \<and> (first_violation d = None \<longrightarrow> client_createModule d fr = send_request fr)
       \<and> (num_falsy idv \<or> le_zero idv \<longrightarrow>
            client_updateModule idv d fr =
              ThrowApiError (api_error_400 ''Valid module ID is required'')
          \<and> updateModule e idv d s = (Rejected ''Valid module ID is required'', s))
       \<and> (\<not> (num_falsy idv \<or> le_zero idv) \<longrightarrow>
            client_updateModule idv d fr = client_createModule d fr)
       \<and> (valid_id idv \<and> first_violation d = Some m \<longrightarrow>
            updateModule e idv d s = (Rejected m, s)
          \<and> client_updateModule idv d fr = ThrowApiError (api_error_400 (client_message m)))"
proof -
  note c = client_request_checks [OF assms, of fr]
  have 1: "first_violation d = Some m \<longrightarrow>
            createModule e d s = (Rejected m, s)
          \<and> client_createModule d fr = ThrowApiError (api_error_400 (client_message m))
          \<and> (m \<noteq> ''Module prompt is required'' \<longrightarrow> client_message m = m)"
    using createModule_rejects [OF assms(1,2), of m e s] c
    by (simp add: client_createModule_def client_message_def)
  have 2: "first_violation d = None \<longrightarrow> client_createModule d fr = send_request fr"
    using c by (simp add: client_createModule_def)
  have 3: "num_falsy idv \<or> le_zero idv \<longrightarrow>
            client_updateModule idv d fr =
              ThrowApiError (api_error_400 ''Valid module ID is required'')
          \<and> updateModule e idv d s = (Rejected ''Valid module ID is required'', s)"
    using client_rejects_id [where idv = idv] by blast
  have 4: "\<not> (num_falsy idv \<or> le_zero idv) \<longrightarrow>
            client_updateModule idv d fr = client_createModule d fr"
    by (simp add: client_updateModule_def client_createModule_def)
  have 5: "valid_id idv \<and> first_violation d = Some m \<longrightarrow>
            updateModule e idv d s = (Rejected m, s)
          \<and> client_updateModule idv d fr = ThrowApiError (api_error_400 (client_message m))"
    using updateModule_rejects [OF _ assms(1,2), of idv m e s] c valid_id_checks [of idv]
    by (auto simp: client_updateModule_def)
  from 1 2 3 4 5 show ?thesis by blast
qed

lemma request_body_shape:
  "truthy (request_body p a b)" "typeof (request_body p a b) = ''object''"
  "text_or_absent (get (request_body p a b) ''prompt'')"
  "text_or_absent (get (get (request_body p a b) ''en'') ''name'')"
  "text_or_absent (get (get (request_body p a b) ''kn'') ''name'')"
  by (simp_all add: request_body_def content_def text_or_absent_def)

theorem client_preflight_witness:
  "createModule ticking_env (request_body '''' ''Valid'' ''Valid'') empty_store
     = (Rejected ''Module prompt is required'', empty_store)
   \<and> client_createModule (request_body '''' ''Valid'' ''Valid'')
        (FetchRejected (Exn True ''Failed to fetch''))
     = ThrowApiError (api_error_400 ''Prompt is required'')
   \<and> createModule ticking_env (request_body ''Summarize:'' '' '' '''') empty_store
     = (Rejected ''English name is required'', empty_store)
   \<and> client_createModule (request_body ''Summarize:'' '' '' '''')
        (FetchRejected (Exn True ''Failed to fetch''))
     = ThrowApiError (api_error_400 ''English name is required'')
   \<and> client_createModule (request_body ''Summarize:'' ''Summarizer'' ''S'')
        (FetchRejected (Exn True ''Failed to fetch''))
     = send_request (FetchRejected (Exn True ''Failed to fetch''))
   \<and> client_updateModule (Num (- 1)) (request_body ''Summarize:'' ''Summarizer'' ''S'')
        (FetchRejected (Exn True ''Failed to fetch''))
     = ThrowApiError (api_error_400 ''Valid module ID is required'')
   \<and> updateModule ticking_env (Num (- 1)) (request_body ''Summarize:'' ''Summarizer'' ''S'')
        empty_store
     = (Rejected ''Valid module ID is required'', empty_store)
   \<and> updateModule ticking_env (Num 1) (request_body '''' ''Valid'' ''Valid'') empty_store
     = (Rejected ''Module prompt is required'', empty_store)
   \<and> client_updateModule (Num 1) (request_body '''' ''Valid'' ''Valid'')
        (FetchRejected (Exn True ''Failed to fetch''))
     = ThrowApiError (api_error_400 ''Prompt is required'')"
proof -
  let ?fr = "FetchRejected (Exn True ''Failed to fetch'') :: Module fetch_result"
  have a: "first_violation (request_body '''' ''Valid'' ''Valid'') = Some ''Module prompt is required''"
    by (simp add: sample_simps)
  have b: "first_violation (request_body ''Summarize:'' '' '' '''') = Some ''English name is required''"
    by (simp add: sample_simps)
  have c: "first_violation (request_body ''Summarize:'' ''Summarizer'' ''S'') = None"
    by (simp add: sample_simps)
  have m: "client_message ''Module prompt is required'' = ''Prompt is required''"
    "client_message ''English name is required'' = ''English name is required''"
    by (simp_all add: client_message_def)
  have 1: "createModule ticking_env (request_body '''' ''Valid'' ''Valid'') empty_store
       = (Rejected ''Module prompt is required'', empty_store)
     \<and> client_createModule (request_body '''' ''Valid'' ''Valid'') ?fr
       = ThrowApiError (api_error_400 ''Prompt is required'')"
    using client_preflight [OF request_body_shape, of "''''" "''Valid''" "''Valid''"
        "''Module prompt is required''" ticking_env empty_store ?fr "Num (- 1)"] a m
    by simp
  have 2: "createModule ticking_env (request_body ''Summarize:'' '' '' '''') empty_store
       = (Rejected ''English name is required'', empty_store)
     \<and> client_createModule (request_body ''Summarize:'' '' '' '''') ?fr
       = ThrowApiError (api_error_400 ''English name is required'')"
    using client_preflight [OF request_body_shape, of "''Summarize:''" "'' ''" "''''"
        "''English name is required''" ticking_env empty_store ?fr "Num (- 1)"] b m
    by simp
  have 3: "client_createModule (request_body ''Summarize:'' ''Summarizer'' ''S'') ?fr
       = send_request ?fr
     \<and> client_updateModule (Num (- 1)) (request_body ''Summarize:'' ''Summarizer'' ''S'') ?fr
       = ThrowApiError (api_error_400 ''Valid module ID is required'')
     \<and> updateModule ticking_env (Num (- 1)) (request_body ''Summarize:'' ''Summarizer'' ''S'')
          empty_store
       = (Rejected ''Valid module ID is required'', empty_store)"
    using client_preflight [OF request_body_shape, of "''Summarize:''" "''Summarizer''" "''S''"
        "''Module prompt is required''" ticking_env empty_store ?fr "Num (- 1)"] c
    by simp
  have v: "valid_id (Num 1)" by (simp add: valid_id_def)
  have 4: "updateModule ticking_env (Num 1) (request_body '''' ''Valid'' ''Valid'') empty_store
       = (Rejected ''Module prompt is required'', empty_store)
     \<and> client_updateModule (Num 1) (request_body '''' ''Valid'' ''Valid'') ?fr
       = ThrowApiError (api_error_400 ''Prompt is required'')"
    using client_preflight [OF request_body_shape, of "''''" "''Valid''" "''Valid''"
        "''Module prompt is required''" ticking_env empty_store ?fr "Num 1"] a m v
    by simp
  from 1 2 3 4 show ?thesis by blast
qed

text \<open>
  The claim as stated fails: for an empty prompt the client's message is not the
  message of the repository.
\<close>

theorem client_message_counterexample:
  "client_createModule (request_body '''' ''Valid'' ''Valid'')
      (FetchRejected (Exn True ''Failed to fetch''))
     = ThrowApiError (api_error_400 ''Prompt is required'')
   \<and> createModule ticking_env (request_body '''' ''Valid'' ''Valid'') empty_store
     = (Rejected ''Module prompt is required'', empty_store)
   \<and> ''Prompt is required'' \<noteq> ''Module prompt is required''"
  by (simp add: client_createModule_def client_request_def createModule_def sample_simps)

end
